theory Spec2Isabelle
  imports Complex_Main "HOL-Library.Log_Nat" "HOL-Library.AList"
begin

section \<open>Python values used by \<open>decountCondition.py\<close>\<close>

subsection \<open>Exceptions\<close>

text \<open>
  The exceptions the script can raise.  \<open>RequestException\<close> stands for every
  transport failure of the \<open>requests\<close> library (connection errors, timeouts and the
  \<open>HTTPError\<close> of \<open>raise_for_status\<close>).  \<open>JSONDecodeError\<close> is the error of
  \<open>resp.json()\<close>: in \<open>requests\<close> it is a subclass of both \<open>RequestException\<close> and
  \<open>ValueError\<close>.
\<close>

datatype pyerr = ValueError | TypeError | OverflowError | AttributeError | KeyError
  | IndexError | RequestException | JSONDecodeError

fun is_request_exception :: "pyerr \<Rightarrow> bool" where
  "is_request_exception RequestException = True"
| "is_request_exception JSONDecodeError = True"
| "is_request_exception _ = False"

fun is_value_or_type_error :: "pyerr \<Rightarrow> bool" where
  "is_value_or_type_error ValueError = True"
| "is_value_or_type_error TypeError = True"
| "is_value_or_type_error JSONDecodeError = True"
| "is_value_or_type_error _ = False"

subsection \<open>Floats\<close>

text \<open>
  A Python \<open>float\<close> is an IEEE 754 binary64 number: a finite value (kept as the exact
  rational it denotes), an infinity or a NaN.  The sign of zero is not observable in
  this program and is not modelled.
\<close>

datatype pyfloat = Finite rat | PosInf | NegInf | NaN

definition pow2 :: "int \<Rightarrow> rat" where
  "pow2 e = (if 0 \<le> e then 2 ^ nat e else 1 / 2 ^ nat (- e))"

text \<open>\<open>ilog2 a\<close> is the binary exponent of \<open>a > 0\<close>: \<open>2 ^ ilog2 a \<le> a < 2 ^ (ilog2 a + 1)\<close>.\<close>

definition ilog2 :: "rat \<Rightarrow> int" where
  "ilog2 a = (if 1 \<le> a then bitlen \<lfloor>a\<rfloor> - 1 else - bitlen (\<lceil>1 / a\<rceil> - 1))"

definition round_half_even :: "rat \<Rightarrow> int" where
  "round_half_even x =
     (let f = \<lfloor>x\<rfloor>; d = x - of_int f
      in if d < 1 / 2 then f else if 1 / 2 < d then f + 1
         else if even f then f else f + 1)"

text \<open>
  Rounding of an exact value to the nearest binary64 number, ties to even: 53 bits of
  significand, least exponent \<open>-1074\<close> (subnormals), overflow to an infinity.
\<close>

definition fl_round :: "rat \<Rightarrow> pyfloat" where
  "fl_round x =
     (if x = 0 then Finite 0
      else let a = \<bar>x\<bar>;
               e = max (ilog2 a - 52) (- 1074);
               y = of_int (round_half_even (a / pow2 e)) * pow2 e
           in if 2 ^ 1024 \<le> y then (if 0 < x then PosInf else NegInf)
              else Finite (if 0 < x then y else - y))"

text \<open>\<open>float * float\<close> and \<open>float - float\<close>: the exact result, rounded.\<close>

fun float_mul :: "pyfloat \<Rightarrow> pyfloat \<Rightarrow> pyfloat" where
  "float_mul (Finite a) (Finite b) = fl_round (a * b)"
| "float_mul NaN _ = NaN"
| "float_mul _ NaN = NaN"
| "float_mul (Finite a) PosInf = (if 0 < a then PosInf else if a < 0 then NegInf else NaN)"
| "float_mul (Finite a) NegInf = (if 0 < a then NegInf else if a < 0 then PosInf else NaN)"
| "float_mul PosInf (Finite b) = (if 0 < b then PosInf else if b < 0 then NegInf else NaN)"
| "float_mul NegInf (Finite b) = (if 0 < b then NegInf else if b < 0 then PosInf else NaN)"
| "float_mul PosInf PosInf = PosInf"
| "float_mul PosInf NegInf = NegInf"
| "float_mul NegInf PosInf = NegInf"
| "float_mul NegInf NegInf = PosInf"

fun float_sub :: "pyfloat \<Rightarrow> pyfloat \<Rightarrow> pyfloat" where
  "float_sub (Finite a) (Finite b) = fl_round (a - b)"
| "float_sub NaN _ = NaN"
| "float_sub _ NaN = NaN"
| "float_sub (Finite a) PosInf = NegInf"
| "float_sub (Finite a) NegInf = PosInf"
| "float_sub PosInf PosInf = NaN"
| "float_sub PosInf _ = PosInf"
| "float_sub NegInf NegInf = NaN"
| "float_sub NegInf _ = NegInf"

fun float_abs :: "pyfloat \<Rightarrow> pyfloat" where
  "float_abs (Finite a) = Finite \<bar>a\<bar>"
| "float_abs PosInf = PosInf"
| "float_abs NegInf = PosInf"
| "float_abs NaN = NaN"

text \<open>Comparisons: every comparison with a NaN is false.\<close>

fun float_less :: "pyfloat \<Rightarrow> pyfloat \<Rightarrow> bool" where
  "float_less NaN _ = False"
| "float_less _ NaN = False"
| "float_less (Finite a) (Finite b) = (a < b)"
| "float_less (Finite a) PosInf = True"
| "float_less (Finite a) NegInf = False"
| "float_less PosInf _ = False"
| "float_less NegInf NegInf = False"
| "float_less NegInf _ = True"

fun float_le :: "pyfloat \<Rightarrow> pyfloat \<Rightarrow> bool" where
  "float_le NaN _ = False"
| "float_le _ NaN = False"
| "float_le (Finite a) (Finite b) = (a \<le> b)"
| "float_le (Finite a) PosInf = True"
| "float_le (Finite a) NegInf = False"
| "float_le PosInf PosInf = True"
| "float_le PosInf _ = False"
| "float_le NegInf _ = True"

text \<open>\<open>int(x)\<close> of a float truncates towards zero; it raises on infinities and NaN.\<close>

definition py_trunc :: "rat \<Rightarrow> int" where
  "py_trunc r = (if 0 \<le> r then \<lfloor>r\<rfloor> else \<lceil>r\<rceil>)"

fun int_of_float :: "pyfloat \<Rightarrow> pyerr + int" where
  "int_of_float (Finite r) = Inr (py_trunc r)"
| "int_of_float PosInf = Inl OverflowError"
| "int_of_float NegInf = Inl OverflowError"
| "int_of_float NaN = Inl ValueError"

text \<open>\<open>float(n)\<close> of an \<open>int\<close>: correctly rounded, \<open>OverflowError\<close> when out of range.\<close>

definition float_of_int :: "int \<Rightarrow> pyerr + pyfloat" where
  "float_of_int n = (case fl_round (of_int n) of Finite r \<Rightarrow> Inr (Finite r)
     | _ \<Rightarrow> Inl OverflowError)"

text \<open>
  \<open>round(x, 2)\<close>: infinities and NaN round to themselves; a finite value is rounded,
  ties to even, to two decimals of its exact value, and the decimal result is converted
  back to the nearest float.
\<close>

fun py_round2 :: "pyfloat \<Rightarrow> pyerr + pyfloat" where
  "py_round2 (Finite r) =
     (case fl_round (of_int (round_half_even (r * 100)) / 100) of
        Finite q \<Rightarrow> Inr (Finite q) | _ \<Rightarrow> Inl OverflowError)"
| "py_round2 x = Inr x"

text \<open>
  Comparison of a float with an \<open>int\<close>: Python compares the exact values, without
  converting the integer to a float.
\<close>

fun float_gt_int :: "pyfloat \<Rightarrow> int \<Rightarrow> bool" where
  "float_gt_int (Finite a) n = (of_int n < a)"
| "float_gt_int PosInf n = True"
| "float_gt_int NegInf n = False"
| "float_gt_int NaN n = False"

subsection \<open>Strings\<close>

text \<open>
  A Python \<open>str\<close> is modelled as a \<open>string\<close> whose characters are the code points
  below 256.  \<open>isprintable\<close>, the white space of \<open>str.strip()\<close> and the white space
  that \<open>float()\<close> ignores are the ones of Python on this range.
\<close>

definition isprintable :: "char \<Rightarrow> bool" where
  "isprintable c = (let n = (of_char c :: nat) in
     (32 \<le> n \<and> n \<le> 126) \<or> (161 \<le> n \<and> n < 173) \<or> 173 < n)"

definition isspace :: "char \<Rightarrow> bool" where
  "isspace c = (let n = (of_char c :: nat) in
     (9 \<le> n \<and> n \<le> 13) \<or> (28 \<le> n \<and> n \<le> 32) \<or> n = 133 \<or> n = 160)"

definition float_space :: "char \<Rightarrow> bool" where
  "float_space c = (let n = (of_char c :: nat) in
     (9 \<le> n \<and> n \<le> 13) \<or> n = 32 \<or> n = 133 \<or> n = 160)"

definition is_digit :: "char \<Rightarrow> bool" where
  "is_digit c = (let n = (of_char c :: nat) in 48 \<le> n \<and> n \<le> 57)"

definition digit_val :: "char \<Rightarrow> int" where
  "digit_val c = of_char c - 48"

definition strip_chars :: "(char \<Rightarrow> bool) \<Rightarrow> string \<Rightarrow> string" where
  "strip_chars P s = rev (dropWhile P (rev (dropWhile P s)))"

text \<open>\<open>sub in s\<close> for two strings.\<close>

fun is_infix :: "string \<Rightarrow> string \<Rightarrow> bool" where
  "is_infix sub [] = (sub = [])"
| "is_infix sub (c # cs) = (take (length sub) (c # cs) = sub \<or> is_infix sub cs)"

text \<open>\<open>s.split(sep)\<close> for a separator of one character.\<close>

fun split_on :: "char \<Rightarrow> string \<Rightarrow> string list" where
  "split_on sep [] = [[]]"
| "split_on sep (c # cs) =
     (case split_on sep cs of
        [] \<Rightarrow> [[c]]
      | w # ws \<Rightarrow> if c = sep then [] # w # ws else (c # w) # ws)"

definition ascii_lower :: "char \<Rightarrow> char" where
  "ascii_lower c = (let n = (of_char c :: nat) in
     if 65 \<le> n \<and> n \<le> 90 then char_of (n + 32) else c)"

text \<open>\<open>str(n)\<close> of an \<open>int\<close>.\<close>

fun digits_of_nat :: "nat \<Rightarrow> string" where
  "digits_of_nat n =
     (if n < 10 then [char_of (48 + n)]
      else digits_of_nat (n div 10) @ [char_of (48 + n mod 10)])"

definition str_of_int :: "int \<Rightarrow> string" where
  "str_of_int n = (if n < 0 then CHR ''-'' # digits_of_nat (nat (- n)) else digits_of_nat (nat n))"

subsection \<open>\<open>float(s)\<close> of a string\<close>

text \<open>
  The text is stripped of surrounding white space.  An underscore is allowed only
  between two digits and is dropped.  What remains is an optional sign followed by
  \<open>inf\<close>, \<open>infinity\<close> or \<open>nan\<close> in any case, or by a decimal number: digits with an
  optional point (at least one digit in all) and an optional exponent.  The value is
  rounded to the nearest float; a text that is not of this form raises \<open>ValueError\<close>
  (the result \<open>None\<close>).
\<close>

fun underscores_ok :: "char option \<Rightarrow> string \<Rightarrow> bool" where
  "underscores_ok prev [] = (if prev = Some CHR ''_'' then False else True)"
| "underscores_ok prev (c # cs) =
     (if c = CHR ''_''
      then (case prev of None \<Rightarrow> False | Some p \<Rightarrow> is_digit p \<and> underscores_ok (Some c) cs)
      else if prev = Some CHR ''_'' then is_digit c \<and> underscores_ok (Some c) cs
      else underscores_ok (Some c) cs)"

fun int_of_digits :: "int \<Rightarrow> string \<Rightarrow> int" where
  "int_of_digits acc [] = acc"
| "int_of_digits acc (c # cs) = int_of_digits (10 * acc + digit_val c) cs"

definition take_sign :: "string \<Rightarrow> bool \<times> string" where
  "take_sign s = (case s of
       [] \<Rightarrow> (False, [])
     | c # cs \<Rightarrow> if c = CHR ''-'' then (True, cs) else if c = CHR ''+'' then (False, cs)
                else (False, c # cs))"

text \<open>The exponent part: its value and the text after it; an \<open>e\<close> without digits is not
  consumed.\<close>

definition take_exponent :: "string \<Rightarrow> int \<times> string" where
  "take_exponent s = (case s of
       [] \<Rightarrow> (0, [])
     | c # cs \<Rightarrow>
         if c = CHR ''e'' \<or> c = CHR ''E'' then
           (let (neg, ds) = take_sign cs; ed = takeWhile is_digit ds
            in if ed = [] then (0, c # cs)
               else ((if neg then - int_of_digits 0 ed else int_of_digits 0 ed),
                     dropWhile is_digit ds))
         else (0, c # cs))"

definition pow10 :: "int \<Rightarrow> rat" where
  "pow10 e = (if 0 \<le> e then 10 ^ nat e else 1 / 10 ^ nat (- e))"

definition parse_decimal :: "string \<Rightarrow> rat option" where
  "parse_decimal s =
     (let (neg, s1) = take_sign s;
          ip = takeWhile is_digit s1; r1 = dropWhile is_digit s1;
          (fp, r2) = (case r1 of
                        [] \<Rightarrow> ([], r1)
                      | c # cs \<Rightarrow> if c = CHR ''.'' then (takeWhile is_digit cs, dropWhile is_digit cs)
                                 else ([], r1));
          (ex, r3) = take_exponent r2
      in if ip = [] \<and> fp = [] then None
         else if r3 = [] then
           Some ((if neg then - 1 else 1) * of_int (int_of_digits 0 (ip @ fp))
                   * pow10 (ex - int (length fp)))
         else None)"

definition parse_inf_nan :: "string \<Rightarrow> pyfloat option" where
  "parse_inf_nan s =
     (let (neg, s1) = take_sign s; w = map ascii_lower s1
      in if w = ''inf'' \<or> w = ''infinity'' then Some (if neg then NegInf else PosInf)
         else if w = ''nan'' then Some NaN else None)"

definition float_of_str :: "string \<Rightarrow> pyfloat option" where
  "float_of_str s =
     (let t = strip_chars float_space s in
      if underscores_ok None t then
        (let u = filter (\<lambda>c. c \<noteq> CHR ''_'') t in
         case parse_decimal u of
           Some q \<Rightarrow> Some (fl_round q)
         | None \<Rightarrow> parse_inf_nan u)
      else None)"

subsection \<open>JSON values\<close>

text \<open>
  What \<open>resp.json()\<close> returns: \<open>None\<close>, a \<open>bool\<close>, an \<open>int\<close>, a \<open>float\<close>, a \<open>str\<close>, a
  \<open>list\<close> or a \<open>dict\<close> with string keys (as the list of its items, keys distinct).
\<close>

datatype json = JNull | JBool bool | JInt int | JFloat pyfloat | JStr string
  | JList "json list" | JDict "(string \<times> json) list"

fun truthy :: "json \<Rightarrow> bool" where
  "truthy JNull = False"
| "truthy (JBool b) = b"
| "truthy (JInt n) = (n \<noteq> 0)"
| "truthy (JFloat x) = (x \<noteq> Finite 0)"
| "truthy (JStr s) = (s \<noteq> [])"
| "truthy (JList xs) = (xs \<noteq> [])"
| "truthy (JDict kvs) = (kvs \<noteq> [])"

definition bind_err :: "pyerr + 'a \<Rightarrow> ('a \<Rightarrow> pyerr + 'b) \<Rightarrow> pyerr + 'b" where
  "bind_err m f = (case m of Inl e \<Rightarrow> Inl e | Inr x \<Rightarrow> f x)"

text \<open>\<open>v.get(k, default)\<close>: only a \<open>dict\<close> has the method.\<close>

fun py_get :: "json \<Rightarrow> string \<Rightarrow> json \<Rightarrow> pyerr + json" where
  "py_get (JDict kvs) k d = Inr (case map_of kvs k of None \<Rightarrow> d | Some v \<Rightarrow> v)"
| "py_get _ k d = Inl AttributeError"

text \<open>\<open>v[k]\<close> for a string key \<open>k\<close>.\<close>

fun py_index_str :: "json \<Rightarrow> string \<Rightarrow> pyerr + json" where
  "py_index_str (JDict kvs) k = (case map_of kvs k of None \<Rightarrow> Inl KeyError | Some v \<Rightarrow> Inr v)"
| "py_index_str _ k = Inl TypeError"

text \<open>\<open>v[0]\<close>.\<close>

fun py_index_0 :: "json \<Rightarrow> pyerr + json" where
  "py_index_0 (JList xs) = (case xs of [] \<Rightarrow> Inl IndexError | x # _ \<Rightarrow> Inr x)"
| "py_index_0 (JStr s) = (case s of [] \<Rightarrow> Inl IndexError | c # _ \<Rightarrow> Inr (JStr [c]))"
| "py_index_0 (JDict kvs) = Inl KeyError"
| "py_index_0 _ = Inl TypeError"

text \<open>The elements a \<open>for\<close> loop over \<open>v\<close> visits.\<close>

fun py_iter :: "json \<Rightarrow> pyerr + json list" where
  "py_iter (JList xs) = Inr xs"
| "py_iter (JDict kvs) = Inr (map (\<lambda>kv. JStr (fst kv)) kvs)"
| "py_iter (JStr s) = Inr (map (\<lambda>c. JStr [c]) s)"
| "py_iter _ = Inl TypeError"

text \<open>\<open>k in v\<close> for a string \<open>k\<close>.\<close>

fun py_contains :: "string \<Rightarrow> json \<Rightarrow> pyerr + bool" where
  "py_contains k (JDict kvs) = Inr (k \<in> set (map fst kvs))"
| "py_contains k (JList xs) = Inr (JStr k \<in> set xs)"
| "py_contains k (JStr s) = Inr (is_infix k s)"
| "py_contains k _ = Inl TypeError"

text \<open>\<open>float(v)\<close>.\<close>

fun py_float :: "json \<Rightarrow> pyerr + pyfloat" where
  "py_float (JStr s) = (case float_of_str s of None \<Rightarrow> Inl ValueError | Some x \<Rightarrow> Inr x)"
| "py_float (JInt n) = float_of_int n"
| "py_float (JFloat x) = Inr x"
| "py_float (JBool b) = Inr (Finite (if b then 1 else 0))"
| "py_float _ = Inl TypeError"

text \<open>
  \<open>str(v)\<close>.  The text of a float, a list or a dict (shortest round-trip digits, the
  display of containers) is not computed here: it is the parameter \<open>repr\<close>.
\<close>

fun py_str :: "(json \<Rightarrow> string) \<Rightarrow> json \<Rightarrow> string" where
  "py_str repr (JStr s) = s"
| "py_str repr (JInt n) = str_of_int n"
| "py_str repr JNull = ''None''"
| "py_str repr (JBool b) = (if b then ''True'' else ''False'')"
| "py_str repr v = repr v"

section \<open>Helper functions\<close>

subsection \<open>\<open>round_to_5_or_10\<close>\<close>

definition round_to_5_or_10 :: "pyfloat \<Rightarrow> pyerr + int" where
  "round_to_5_or_10 price =
     (case int_of_float price of
        Inl e \<Rightarrow> Inl e
      | Inr price_pounds \<Rightarrow>
          (let last_digit = price_pounds mod 10 in
           if last_digit = 0 \<or> last_digit = 5 then Inr price_pounds
           else let remainder = price_pounds mod 10 in
             if remainder < 5 then Inr (price_pounds - remainder + 5)
             else Inr (price_pounds - remainder + 10)))"

subsection \<open>\<open>sanitize_sku\<close>\<close>

fun sanitize_sku :: "json \<Rightarrow> string" where
  "sanitize_sku (JStr sku) = filter isprintable sku"
| "sanitize_sku _ = []"

section \<open>The remote systems and what the script prints\<close>

text \<open>
  A remote call either fails in the transport (\<open>requests\<close> raises a
  \<open>RequestException\<close>, or \<open>raise_for_status\<close> does), or it returns a response: the value
  of \<open>resp.json()\<close> (\<open>None\<close> when the body is not JSON) and the \<open>Link\<close> header.
\<close>

datatype http_resp = Request_Failed | Response "json option" "string option"

text \<open>
  The remote systems of one run: the answer to the \<open>n\<close>-th request of the product
  listing, the answer of the POS export, and the answers to the stock and the price
  request made for the \<open>i\<close>-th storefront entry.
\<close>

record world =
  shopify_pages :: "nat \<Rightarrow> http_resp"
  pos_export :: http_resp
  stock_mutation :: "nat \<Rightarrow> http_resp"
  price_mutation :: "nat \<Rightarrow> http_resp"

datatype msg =
    Shopify_Fetch_Error | Shopify_Retrieved nat
  | Pos_Fetching | Pos_Loaded nat | Pos_Fetch_Error | Pos_Parse_Error
  | Stock_Rejected json json | Stock_Error json
  | Has_Discount json | Cannot_Parse_Price json json | Already_At_Target json pyfloat
  | Price_Updated json pyfloat int pyfloat | Price_Error json
  | Missing_Env string | No_Skus_Exit | No_Pos_Exit | Comparing nat nat
  | Synced_Stock json int | No_Match json

text \<open>What a run does that can be observed: the requests it sends and the lines it prints.\<close>

datatype event = Print msg | Get_Products string | Get_Pos | Post_Stock json int
  | Put_Price json string

section \<open>API functions\<close>

subsection \<open>\<open>get_shopify_skus\<close>\<close>

record shopify_item =
  item_sku :: json
  item_inventory_item_id :: json
  item_variant_id :: json
  item_current_price :: json
  item_compare_at_price :: json

definition variant_entry :: "json \<Rightarrow> pyerr + shopify_item option" where
  "variant_entry variant =
     bind_err (py_get variant ''sku'' JNull) (\<lambda>s.
       if \<not> truthy s then Inr None
       else bind_err (py_get variant ''inventory_item_id'' JNull) (\<lambda>i.
         if \<not> truthy i then Inr None
         else bind_err (py_index_str variant ''sku'') (\<lambda>sku.
              bind_err (py_index_str variant ''inventory_item_id'') (\<lambda>inventory_item_id.
              bind_err (py_index_str variant ''id'') (\<lambda>variant_id.
              bind_err (py_get variant ''price'' (JStr ''0.0'')) (\<lambda>current_price.
              bind_err (py_get variant ''compare_at_price'' JNull) (\<lambda>compare_at_price.
                Inr (Some \<lparr>item_sku = sku, item_inventory_item_id = inventory_item_id,
                           item_variant_id = variant_id, item_current_price = current_price,
                           item_compare_at_price = compare_at_price\<rparr>))))))))"

fun variants_loop :: "json list \<Rightarrow> shopify_item list \<Rightarrow> pyerr + shopify_item list" where
  "variants_loop [] skus = Inr skus"
| "variants_loop (variant # vs) skus =
     (case variant_entry variant of
        Inl e \<Rightarrow> Inl e
      | Inr None \<Rightarrow> variants_loop vs skus
      | Inr (Some item) \<Rightarrow> variants_loop vs (skus @ [item]))"

fun products_loop :: "json list \<Rightarrow> shopify_item list \<Rightarrow> pyerr + shopify_item list" where
  "products_loop [] skus = Inr skus"
| "products_loop (product # ps) skus =
     (case bind_err (py_index_str product ''variants'') py_iter of
        Inl e \<Rightarrow> Inl e
      | Inr vs \<Rightarrow> (case variants_loop vs skus of
                    Inl e \<Rightarrow> Inl e
                  | Inr skus' \<Rightarrow> products_loop ps skus'))"

definition rel_next :: string where
  "rel_next = ''rel='' @ [CHR 0x22] @ ''next'' @ [CHR 0x22]"

text \<open>The next value of \<open>url\<close>; the empty string stands for \<open>None\<close> (both end the loop).\<close>

definition next_url :: "string option \<Rightarrow> string" where
  "next_url link_header =
     (case link_header of
        None \<Rightarrow> []
      | Some h \<Rightarrow>
          if h \<noteq> [] \<and> is_infix rel_next h then
            (case filter (is_infix rel_next) (split_on CHR '','' h) of
               [] \<Rightarrow> []
             | p # _ \<Rightarrow> (case split_on CHR '';'' p of
                          [] \<Rightarrow> []
                        | u # _ \<Rightarrow> strip_chars (\<lambda>c. c = CHR ''<'' \<or> c = CHR ''>'' \<or> c = CHR '' '') u))
          else [])"

text \<open>
  The \<open>while url\<close> loop.  It runs for as long as the storefront names a next page, so
  the model takes fuel: \<open>None\<close> is a loop that has not ended within it.
\<close>

fun shopify_loop ::
  "nat \<Rightarrow> (nat \<Rightarrow> http_resp) \<Rightarrow> nat \<Rightarrow> string \<Rightarrow> shopify_item list
     \<Rightarrow> (event list \<times> (pyerr + shopify_item list option)) option" where
  "shopify_loop 0 pages k url skus = None"
| "shopify_loop (Suc fuel) pages k url skus =
     (if url = [] then Some ([Print (Shopify_Retrieved (length skus))], Inr (Some skus))
      else case pages k of
        Request_Failed \<Rightarrow> Some ([Get_Products url, Print Shopify_Fetch_Error], Inr None)
      | Response body link_header \<Rightarrow>
          (case body of
             None \<Rightarrow> Some ([Get_Products url, Print Shopify_Fetch_Error], Inr None)
           | Some j \<Rightarrow>
               (case bind_err (py_get j ''products'' (JList [])) (\<lambda>products.
                       bind_err (py_iter products) (\<lambda>ps. products_loop ps skus)) of
                  Inl e \<Rightarrow>
                    if is_request_exception e
                    then Some ([Get_Products url, Print Shopify_Fetch_Error], Inr None)
                    else Some ([Get_Products url], Inl e)
                | Inr skus' \<Rightarrow>
                    (case shopify_loop fuel pages (Suc k) (next_url link_header) skus' of
                       None \<Rightarrow> None
                     | Some (tr, r) \<Rightarrow> Some (Get_Products url # tr, r)))))"

definition products_url :: "string \<Rightarrow> string" where
  "products_url store = ''https://'' @ store @ ''/admin/api/2024-07/products.json?limit=250''"

definition get_shopify_skus ::
  "nat \<Rightarrow> string \<Rightarrow> (nat \<Rightarrow> http_resp)
     \<Rightarrow> (event list \<times> (pyerr + shopify_item list option)) option" where
  "get_shopify_skus fuel store pages = shopify_loop fuel pages 0 (products_url store) []"

subsection \<open>\<open>get_all_pos_inventory\<close>\<close>

record pos_entry =
  entry_quantity :: int
  entry_price :: pyfloat

text \<open>
  The dictionary \<open>pos_inventory_map\<close>, as the list of its items: an assignment to a key
  that is present replaces the value in place, a new key is appended.
\<close>

type_synonym inventory = "(string \<times> pos_entry) list"

text \<open>The body of the \<open>for\<close> loop: the entry to store, or \<open>None\<close> for a skipped item.\<close>

definition pos_item :: "(json \<Rightarrow> string) \<Rightarrow> json \<Rightarrow> pyerr + (string \<times> pos_entry) option" where
  "pos_item repr item =
     (if \<not> truthy item then Inr None
      else bind_err (py_contains ''ID'' item) (\<lambda>has_id.
        if \<not> has_id then Inr None
        else bind_err (py_contains ''Qua'' item) (\<lambda>has_qua.
          if \<not> has_qua then Inr None
          else bind_err (py_contains ''Price'' item) (\<lambda>has_price.
            if \<not> has_price then Inr None
            else bind_err (py_index_str item ''ID'') (\<lambda>id.
                 bind_err (py_index_str item ''Qua'') (\<lambda>qua.
                 bind_err (py_float qua) (\<lambda>qua_float.
                 bind_err (int_of_float qua_float) (\<lambda>quantity.
                 bind_err (py_get item ''Price'' (JInt 0)) (\<lambda>p.
                 bind_err (py_float p) (\<lambda>price.
                   Inr (Some (py_str repr id,
                              \<lparr>entry_quantity = quantity, entry_price = price\<rparr>))))))))))))"

fun pos_loop :: "(json \<Rightarrow> string) \<Rightarrow> json list \<Rightarrow> inventory \<Rightarrow> pyerr + inventory" where
  "pos_loop repr [] pos_inventory_map = Inr pos_inventory_map"
| "pos_loop repr (item # items) pos_inventory_map =
     (case pos_item repr item of
        Inl e \<Rightarrow> Inl e
      | Inr None \<Rightarrow> pos_loop repr items pos_inventory_map
      | Inr (Some (sku, entry)) \<Rightarrow>
          pos_loop repr items (AList.update sku entry pos_inventory_map))"

definition get_all_pos_inventory ::
  "(json \<Rightarrow> string) \<Rightarrow> http_resp \<Rightarrow> event list \<times> (pyerr + inventory option)" where
  "get_all_pos_inventory repr resp =
     (case resp of
        Request_Failed \<Rightarrow> ([Print Pos_Fetching, Get_Pos, Print Pos_Fetch_Error], Inr None)
      | Response body link_header \<Rightarrow>
          (case body of
             None \<Rightarrow> ([Print Pos_Fetching, Get_Pos, Print Pos_Fetch_Error], Inr None)
           | Some pos_data \<Rightarrow>
               (case bind_err (py_iter pos_data) (\<lambda>items. pos_loop repr items []) of
                  Inl e \<Rightarrow>
                    if is_request_exception e
                    then ([Print Pos_Fetching, Get_Pos, Print Pos_Fetch_Error], Inr None)
                    else if is_value_or_type_error e
                    then ([Print Pos_Fetching, Get_Pos, Print Pos_Parse_Error], Inr None)
                    else ([Print Pos_Fetching, Get_Pos], Inl e)
                | Inr pos_inventory_map \<Rightarrow>
                    ([Print Pos_Fetching, Get_Pos, Print (Pos_Loaded (length pos_inventory_map))],
                     Inr (Some pos_inventory_map)))))"

subsection \<open>\<open>update_shopify_stock\<close>\<close>

definition update_shopify_stock ::
  "http_resp \<Rightarrow> json \<Rightarrow> json \<Rightarrow> int \<Rightarrow> event list \<times> (pyerr + bool)" where
  "update_shopify_stock resp inventory_item_id sku quantity =
     (case resp of
        Request_Failed \<Rightarrow>
          ([Post_Stock inventory_item_id quantity, Print (Stock_Error sku)], Inr False)
      | Response body link_header \<Rightarrow>
          (case body of
             None \<Rightarrow> ([Post_Stock inventory_item_id quantity, Print (Stock_Error sku)], Inr False)
           | Some response_data \<Rightarrow>
               (case bind_err (py_get response_data ''data'' (JDict [])) (\<lambda>d.
                     bind_err (py_get d ''inventorySetOnHandQuantities'' (JDict [])) (\<lambda>q.
                       py_get q ''userErrors'' (JList []))) of
                  Inl e \<Rightarrow> ([Post_Stock inventory_item_id quantity], Inl e)
                | Inr user_errors \<Rightarrow>
                    if truthy user_errors then
                      (case bind_err (py_index_0 user_errors) (\<lambda>u. py_index_str u ''message'') of
                         Inl e \<Rightarrow> ([Post_Stock inventory_item_id quantity], Inl e)
                       | Inr error_message \<Rightarrow>
                           ([Post_Stock inventory_item_id quantity,
                             Print (Stock_Rejected sku error_message)], Inr False))
                    else ([Post_Stock inventory_item_id quantity], Inr True))))"

subsection \<open>\<open>update_shopify_price\<close>\<close>

text \<open>
  The discount check at the head of the function: \<open>Inr True\<close> when the product has a
  discount, \<open>Inl\<close> for an exception the \<open>try\<close> does not catch.
\<close>

definition has_discount :: "json \<Rightarrow> json \<Rightarrow> pyerr + bool" where
  "has_discount current_shopify_price compare_at_price =
     (if \<not> truthy compare_at_price then Inr False
      else case compare_at_price of
        JStr s \<Rightarrow>
          if strip_chars isspace s = [] then Inr False
          else (case py_float compare_at_price of
                  Inl e \<Rightarrow> if is_value_or_type_error e then Inr False else Inl e
                | Inr compare_price_float \<Rightarrow>
                    (case py_float current_shopify_price of
                       Inl e \<Rightarrow> if is_value_or_type_error e then Inr False else Inl e
                     | Inr current_price_float \<Rightarrow>
                         Inr (float_less current_price_float compare_price_float)))
      | _ \<Rightarrow> Inl AttributeError)"

text \<open>The float literals \<open>1.15\<close> and \<open>0.01\<close>.\<close>

definition markup :: pyfloat where
  "markup = fl_round (115 / 100)"

definition tolerance :: pyfloat where
  "tolerance = fl_round (1 / 100)"

text \<open>\<open>round_to_5_or_10(round(pos_price * 1.15, 2))\<close>.\<close>

definition target_price_of :: "pyfloat \<Rightarrow> pyerr + int" where
  "target_price_of pos_price = bind_err (py_round2 (float_mul pos_price markup)) round_to_5_or_10"

text \<open>
  The condition \<open>abs(current_price_float - target_price) <= tolerance or
  current_price_float > target_price\<close>; the subtraction converts the integer target
  to a float.
\<close>

definition at_or_above_target :: "pyfloat \<Rightarrow> int \<Rightarrow> pyerr + bool" where
  "at_or_above_target current_price_float target_price =
     bind_err (float_of_int target_price) (\<lambda>t.
       Inr (float_le (float_abs (float_sub current_price_float t)) tolerance
            \<or> float_gt_int current_price_float target_price))"

text \<open>
  The part of the function between the discount check and the request: the target
  price, the parsing of the current price and the comparison of the two.
\<close>

datatype price_step = Parse_Failure | Skip pyfloat | Update pyfloat int

definition price_decision :: "pyfloat \<Rightarrow> json \<Rightarrow> pyerr + price_step" where
  "price_decision pos_price current_shopify_price =
     bind_err (target_price_of pos_price) (\<lambda>target_price.
       case py_float current_shopify_price of
         Inl e \<Rightarrow> if is_value_or_type_error e then Inr Parse_Failure else Inl e
       | Inr current_price_float \<Rightarrow>
           bind_err (at_or_above_target current_price_float target_price) (\<lambda>skip.
             Inr (if skip then Skip current_price_float
                  else Update current_price_float target_price)))"

definition update_shopify_price ::
  "http_resp \<Rightarrow> json \<Rightarrow> json \<Rightarrow> pyfloat \<Rightarrow> json \<Rightarrow> json \<Rightarrow> event list \<times> (pyerr + bool)" where
  "update_shopify_price resp variant_id sku pos_price current_shopify_price compare_at_price =
     (case has_discount current_shopify_price compare_at_price of
        Inl e \<Rightarrow> ([], Inl e)
      | Inr True \<Rightarrow> ([Print (Has_Discount sku)], Inr False)
      | Inr False \<Rightarrow>
          (case price_decision pos_price current_shopify_price of
             Inl e \<Rightarrow> ([], Inl e)
           | Inr Parse_Failure \<Rightarrow>
               ([Print (Cannot_Parse_Price sku current_shopify_price)], Inr False)
           | Inr (Skip current_price_float) \<Rightarrow>
               ([Print (Already_At_Target sku current_price_float)], Inr False)
           | Inr (Update current_price_float target_price) \<Rightarrow>
               (case resp of
                  Request_Failed \<Rightarrow>
                    ([Put_Price variant_id (str_of_int target_price), Print (Price_Error sku)],
                     Inr False)
                | Response body link_header \<Rightarrow>
                    ([Put_Price variant_id (str_of_int target_price),
                      Print (Price_Updated sku current_price_float target_price pos_price)],
                     Inr True))))"

section \<open>\<open>main\<close>\<close>

text \<open>The body of the loop over the storefront entries.\<close>

definition sync_item ::
  "inventory \<Rightarrow> http_resp \<Rightarrow> http_resp \<Rightarrow> shopify_item \<Rightarrow> event list \<times> pyerr option" where
  "sync_item pos_inventory stock_resp price_resp item =
     (let original_sku = item_sku item;
          clean_sku = sanitize_sku original_sku
      in case map_of pos_inventory clean_sku of
           None \<Rightarrow> ([Print (No_Match original_sku)], None)
         | Some pos_data \<Rightarrow>
             (case update_shopify_stock stock_resp (item_inventory_item_id item) original_sku
                     (entry_quantity pos_data) of
                (tr1, Inl e) \<Rightarrow> (tr1, Some e)
              | (tr1, Inr synced) \<Rightarrow>
                  (case update_shopify_price price_resp (item_variant_id item) original_sku
                          (entry_price pos_data) (item_current_price item)
                          (item_compare_at_price item) of
                     (tr2, r) \<Rightarrow>
                       (tr1 @ (if synced
                               then [Print (Synced_Stock original_sku (entry_quantity pos_data))]
                               else []) @ tr2,
                        case r of Inl e \<Rightarrow> Some e | Inr _ \<Rightarrow> None))))"

fun sync_items ::
  "inventory \<Rightarrow> world \<Rightarrow> nat \<Rightarrow> shopify_item list \<Rightarrow> event list \<times> pyerr option" where
  "sync_items pos_inventory w i [] = ([], None)"
| "sync_items pos_inventory w i (item # items) =
     (case sync_item pos_inventory (stock_mutation w i) (price_mutation w i) item of
        (tr, Some e) \<Rightarrow> (tr, Some e)
      | (tr, None) \<Rightarrow>
          (case sync_items pos_inventory w (Suc i) items of
             (tr', r) \<Rightarrow> (tr @ tr', r)))"

definition required_vars :: "string list" where
  "required_vars =
     [''SHOPIFY_STORE'', ''SHOPIFY_TOKEN'', ''LOCATION_ID'', ''POS_BASE_URL'', ''POS_PASSWORD'']"

definition env_value :: "(string \<Rightarrow> string option) \<Rightarrow> string \<Rightarrow> string" where
  "env_value getenv var = (case getenv var of None \<Rightarrow> [] | Some v \<Rightarrow> v)"

text \<open>
  A run: the events in their order, and the exception that ended the run if one
  escaped; \<open>None\<close> at the outside when the listing loop has not ended within the fuel.
  The pauses (\<open>time.sleep\<close>) change nothing of what is sent or printed and are left
  out.
\<close>

definition main ::
  "nat \<Rightarrow> (string \<Rightarrow> string option) \<Rightarrow> (json \<Rightarrow> string) \<Rightarrow> world
     \<Rightarrow> (event list \<times> pyerr option) option" where
  "main fuel getenv repr w =
     (case filter (\<lambda>var. env_value getenv var = []) required_vars of
        var # _ \<Rightarrow> Some ([Print (Missing_Env var)], None)
      | [] \<Rightarrow>
          (case get_shopify_skus fuel (env_value getenv ''SHOPIFY_STORE'') (shopify_pages w) of
             None \<Rightarrow> None
           | Some (tr1, Inl e) \<Rightarrow> Some (tr1, Some e)
           | Some (tr1, Inr shopify_skus) \<Rightarrow>
               (case shopify_skus of
                  None \<Rightarrow> Some (tr1 @ [Print No_Skus_Exit], None)
                | Some [] \<Rightarrow> Some (tr1 @ [Print No_Skus_Exit], None)
                | Some (item # items) \<Rightarrow>
                    (case get_all_pos_inventory repr (pos_export w) of
                       (tr2, Inl e) \<Rightarrow> Some (tr1 @ tr2, Some e)
                     | (tr2, Inr None) \<Rightarrow> Some (tr1 @ tr2 @ [Print No_Pos_Exit], None)
                     | (tr2, Inr (Some [])) \<Rightarrow> Some (tr1 @ tr2 @ [Print No_Pos_Exit], None)
                     | (tr2, Inr (Some (entry # entries))) \<Rightarrow>
                         (case sync_items (entry # entries) w 0 (item # items) of
                            (tr3, r) \<Rightarrow>
                              Some (tr1 @ tr2
                                    @ [Print (Comparing (length (item # items))
                                                        (length (entry # entries)))]
                                    @ tr3, r))))))"

section \<open>Facts about the float model\<close>

text \<open>
  The binary exponent is characterised by its bounds, rounding to the nearest integer
  by the distance to it, and rounding to a float leaves a float unchanged: every
  finite value that the operations produce is a binary64 number.
\<close>



lemma pow2_powi: "pow2 e = 2 powi e"
  by (simp add: pow2_def power_int_def inverse_eq_divide power_one_over)

lemma pow2_pos [simp]: "0 < pow2 e"
  by (simp add: pow2_powi)

lemma pow2_nonzero [simp]: "pow2 e \<noteq> 0"
  using pow2_pos [of e] by linarith

lemma pow2_nonneg [simp]: "0 \<le> pow2 e"
  using pow2_pos [of e] by linarith

lemma pow2_add: "pow2 (a + b) = pow2 a * pow2 b"
  by (simp add: pow2_powi power_int_add)

lemma pow2_less_iff: "pow2 a < pow2 b \<longleftrightarrow> a < b"
proof
  assume "a < b" then show "pow2 a < pow2 b"
    by (simp add: pow2_powi power_int_strict_increasing)
next
  assume h: "pow2 a < pow2 b"
  show "a < b"
  proof (rule ccontr)
    assume "\<not> a < b"
    then have "b \<le> a" by simp
    then have "pow2 b \<le> pow2 a"
      by (simp add: pow2_powi power_int_increasing)
    with h show False by simp
  qed
qed

lemma pow2_le_iff: "pow2 a \<le> pow2 b \<longleftrightarrow> a \<le> b"
  using pow2_less_iff [of b a] by (auto simp: not_less [symmetric])

lemma pow2_nat: "0 \<le> e \<Longrightarrow> pow2 e = 2 ^ nat e"
  by (simp add: pow2_def)

lemma ilog2_bounds:
  assumes "0 < a"
  shows "pow2 (ilog2 a) \<le> a \<and> a < pow2 (ilog2 a + 1)"
proof (cases "1 \<le> a")
  case True
  define n where "n = \<lfloor>a\<rfloor>"
  have n1: "1 \<le> n" using True by (simp add: n_def le_floor_iff)
  then have npos: "0 < n" by simp
  have bl: "1 \<le> bitlen n" using npos bitlen_eq_zero_iff [of n] bitlen_nonneg [of n] by linarith
  from bitlen_bounds [OF npos]
  have b1: "2 ^ nat (bitlen n - 1) \<le> n" and b2: "n < 2 ^ nat (bitlen n)" by auto
  have il: "ilog2 a = bitlen n - 1" using True by (simp add: ilog2_def n_def)
  have "pow2 (bitlen n - 1) = of_int (2 ^ nat (bitlen n - 1))"
    using bl by (simp add: pow2_nat)
  also have "\<dots> \<le> of_int n" using b1 by (simp only: of_int_le_iff)
  also have "\<dots> \<le> a" by (simp add: n_def)
  finally have lo: "pow2 (ilog2 a) \<le> a" by (simp add: il)
  have "n + 1 \<le> 2 ^ nat (bitlen n)" using b2 by simp
  then have "(of_int (n + 1) :: rat) \<le> of_int (2 ^ nat (bitlen n))" by (simp only: of_int_le_iff)
  moreover have "a < of_int (n + 1)" using floor_correct [of a] by (simp add: n_def)
  ultimately have "a < of_int (2 ^ nat (bitlen n))" by linarith
  moreover have "pow2 (bitlen n - 1 + 1) = of_int (2 ^ nat (bitlen n))"
    using bl by (simp add: pow2_nat)
  ultimately have "a < pow2 (ilog2 a + 1)" by (simp add: il)
  with lo show ?thesis by simp
next
  case False
  then have a1: "a < 1" by simp
  define b where "b = 1 / a"
  have b1: "1 < b" using assms a1 by (simp add: b_def)
  define c where "c = \<lceil>b\<rceil> - 1"
  have cb: "of_int c < b" "b \<le> of_int c + 1"
    using ceiling_correct [of b] by (simp_all add: c_def)
  have c1: "1 \<le> c" using b1 cb by (smt (verit) of_int_le_iff of_int_1 of_int_add less_le_trans not_less add.commute zle_add1_eq_le of_int_less_iff)
  then have cpos: "0 < c" by simp
  define L where "L = bitlen c"
  have bl: "1 \<le> L" using cpos bitlen_eq_zero_iff [of c] bitlen_nonneg [of c] unfolding L_def by linarith
  from bitlen_bounds [OF cpos]
  have i1: "2 ^ nat (L - 1) \<le> c" and i2: "c < 2 ^ nat L" by (auto simp: L_def)
  have il: "ilog2 a = - L" using False by (simp add: ilog2_def L_def c_def b_def)
  have "(of_int (2 ^ nat (L - 1)) :: rat) \<le> of_int c" using i1 by (simp only: of_int_le_iff)
  then have "(2 :: rat) ^ nat (L - 1) \<le> of_int c" by (simp only: of_int_power of_int_numeral)
  then have lb: "(2 :: rat) ^ nat (L - 1) < b" using cb by linarith
  have "c + 1 \<le> 2 ^ nat L" using i2 by simp
  then have "(of_int (c + 1) :: rat) \<le> of_int (2 ^ nat L)" by (simp only: of_int_le_iff)
  then have "(of_int c + 1 :: rat) \<le> 2 ^ nat L" by (simp only: of_int_power of_int_numeral of_int_add of_int_1)
  then have ub: "b \<le> (2 :: rat) ^ nat L" using cb by linarith
  have ab: "a = 1 / b" using assms by (simp add: b_def)
  have bpos: "0 < b" using b1 by simp
  have "pow2 (- L) = 1 / 2 ^ nat L" using bl by (simp add: pow2_def)
  also have "\<dots> \<le> 1 / b" using ub bpos by (simp add: frac_le)
  finally have "pow2 (- L) \<le> a" by (simp only: ab)
  then have lo: "pow2 (ilog2 a) \<le> a" by (simp only: il)
  have "1 / b < 1 / 2 ^ nat (L - 1)" using lb by (simp add: frac_less2)
  moreover have "pow2 (- L + 1) = 1 / 2 ^ nat (L - 1)"
  proof (cases "L = 1")
    case True then show ?thesis by (simp add: pow2_def)
  next
    case False
    with bl have "- L + 1 < 0" by simp
    moreover have "nat (- (- L + 1)) = nat (L - 1)" by simp
    ultimately show ?thesis by (simp add: pow2_def)
  qed
  ultimately have "a < pow2 (- L + 1)" by (simp only: ab)
  then have "a < pow2 (ilog2 a + 1)" by (simp only: il)
  with lo show ?thesis by simp
qed

lemma ilog2_unique:
  assumes "0 < a" "pow2 k \<le> a" "a < pow2 (k + 1)"
  shows "ilog2 a = k"
proof -
  from ilog2_bounds [OF assms(1)]
  have lo: "pow2 (ilog2 a) \<le> a" and hi: "a < pow2 (ilog2 a + 1)" by auto
  have "pow2 k < pow2 (ilog2 a + 1)" using assms(2) hi by simp
  then have 1: "k < ilog2 a + 1" by (simp add: pow2_less_iff)
  have "pow2 (ilog2 a) < pow2 (k + 1)" using lo assms(3) by simp
  then have 2: "ilog2 a < k + 1" by (simp add: pow2_less_iff)
  from 1 2 show ?thesis by simp
qed


lemma round_half_even_unique:
  assumes "\<bar>x - of_int m\<bar> < 1 / 2"
  shows "round_half_even x = m"
proof (cases "of_int m \<le> x")
  case True
  have "x < of_int m + 1" using assms by linarith
  with True have "\<lfloor>x\<rfloor> = m" by (simp add: floor_eq_iff)
  with assms True show ?thesis by (simp add: round_half_even_def Let_def)
next
  case False
  have "of_int m - 1 \<le> x" "x < of_int m" using assms False by linarith+
  then have fl: "\<lfloor>x\<rfloor> = m - 1" by (simp add: floor_eq_iff)
  have "1 / 2 < x - of_int (m - 1)" using assms False by (simp; linarith)
  with fl show ?thesis by (simp add: round_half_even_def Let_def)
qed

lemma round_half_even_of_int [simp]: "round_half_even (of_int m) = m"
  by (rule round_half_even_unique) simp

lemma round_half_even_le:
  assumes "x \<le> of_int N"
  shows "round_half_even x \<le> N"
proof (cases "x = of_int N")
  case True
  then show ?thesis by simp
next
  case False
  with assms have "x < of_int N" by simp
  then have "\<lfloor>x\<rfloor> < N" by (simp add: floor_less_iff)
  then show ?thesis by (simp add: round_half_even_def Let_def)
qed

lemma round_half_even_ge:
  assumes "of_int N \<le> x"
  shows "N \<le> round_half_even x"
proof -
  have "N \<le> \<lfloor>x\<rfloor>" using assms by (simp add: le_floor_iff)
  then show ?thesis by (simp add: round_half_even_def Let_def)
qed

lemma fl_round_0 [simp]: "fl_round 0 = Finite 0"
  by (simp add: fl_round_def)

lemma fl_round_pos_eval:
  assumes "0 < x" "pow2 k \<le> x" "x < pow2 (k + 1)"
    and "e = max (k - 52) (- 1074)"
    and "round_half_even (x / pow2 e) = m"
    and "of_int m * pow2 e < 2 ^ 1024"
  shows "fl_round x = Finite (of_int m * pow2 e)"
proof -
  have "ilog2 x = k" using assms(1-3) by (rule ilog2_unique)
  then have "ilog2 \<bar>x\<bar> = k" using assms(1) by simp
  then show ?thesis
    using assms(1,4,5,6) by (simp add: fl_round_def Let_def)
qed

lemma fl_round_fixed:
  assumes "0 < y" "y = of_int m * pow2 (max (ilog2 y - 52) (- 1074))" "y < 2 ^ 1024"
  shows "fl_round y = Finite y"
proof -
  define e where "e = max (ilog2 y - 52) (- 1074)"
  have ne: "pow2 e \<noteq> 0" by simp
  have "y = of_int m * pow2 e" using assms(2) by (simp only: e_def)
  then have "y / pow2 e = of_int m" using ne by simp
  then have "round_half_even (\<bar>y\<bar> / pow2 e) = m" using assms(1) by simp
  then show ?thesis
    using assms unfolding e_def by (simp add: fl_round_def Let_def)
qed

lemma fl_round_minus:
  "fl_round (- x) = (case fl_round x of Finite y \<Rightarrow> Finite (- y) | PosInf \<Rightarrow> NegInf
                      | NegInf \<Rightarrow> PosInf | NaN \<Rightarrow> NaN)"
  by (cases "x = 0") (auto simp: fl_round_def Let_def)

lemma pow2_53: "pow2 53 = 2 ^ 53"
  by (simp add: pow2_def)

lemma fl_round_pos_idem:
  assumes "0 < x" "fl_round x = Finite y"
  shows "fl_round y = Finite y"
proof -
  define k where "k = ilog2 x"
  define e where "e = max (k - 52) (- 1074)"
  define m where "m = round_half_even (x / pow2 e)"
  have xa: "\<bar>x\<bar> = x" using assms(1) by simp
  have y: "y = of_int m * pow2 e" and ylt: "y < 2 ^ 1024"
    using assms unfolding fl_round_def Let_def xa k_def [symmetric] e_def [symmetric] m_def [symmetric]
    by (auto split: if_splits)
  from ilog2_bounds [OF assms(1)] have xhi: "x < pow2 (k + 1)" by (simp add: k_def)
  have e_lo: "- 1074 \<le> e" and e_k: "k - 52 \<le> e" by (simp_all add: e_def)
  have "pow2 (k + 1) \<le> pow2 (e + 53)" using e_k by (simp add: pow2_le_iff)
  with xhi have "x < pow2 (e + 53)" by simp
  then have "x < 2 ^ 53 * pow2 e" by (simp add: pow2_add pow2_53)
  then have "x / pow2 e < 2 ^ 53"
    using pow2_pos [of e] by (simp add: pos_divide_less_eq)
  then have "x / pow2 e \<le> of_int (2 ^ 53)" by simp
  then have m_hi: "m \<le> 2 ^ 53" unfolding m_def by (rule round_half_even_le)
  have "of_int 0 \<le> x / pow2 e" using assms(1) pow2_pos [of e] by simp
  then have m_lo: "0 \<le> m" unfolding m_def by (rule round_half_even_ge)
  show ?thesis
  proof (cases "m = 0")
    case True
    then show ?thesis by (simp add: y)
  next
    case False
    with m_lo have mpos: "0 < m" by simp
    then have ypos: "0 < y" using pow2_pos [of e] by (simp add: y)
    define e' where "e' = max (ilog2 y - 52) (- 1074)"
    have "\<exists>m'. y = of_int m' * pow2 e'"
    proof (cases "m = 2 ^ 53")
      case True
      then have y53: "y = pow2 (e + 53)" by (simp add: y pow2_add pow2_53)
      have "ilog2 y = e + 53"
        by (rule ilog2_unique) (simp_all add: y53 pow2_le_iff pow2_less_iff)
      then have "e' = e + 1" using e_lo by (simp add: e'_def)
      then have "y = of_int (2 ^ 52) * pow2 e'"
        using pow2_add [of e 53] pow2_add [of e 1] by (simp add: y53 pow2_53 pow2_def)
      then show ?thesis by blast
    next
      case False
      with m_hi have "m < 2 ^ 53" by simp
      then have "(of_int m :: rat) < of_int (2 ^ 53)" by (simp only: of_int_less_iff)
      then have "y < pow2 (e + 53)"
        using pow2_pos [of e] by (simp add: y pow2_add pow2_53)
      moreover from ilog2_bounds [OF ypos] have "pow2 (ilog2 y) \<le> y" by simp
      ultimately have "pow2 (ilog2 y) < pow2 (e + 53)" by simp
      then have "ilog2 y < e + 53" by (simp add: pow2_less_iff)
      then have le: "e' \<le> e" using e_lo by (simp add: e'_def)
      have "pow2 e = pow2 (e - e') * pow2 e'" by (simp add: pow2_add [symmetric])
      also have "pow2 (e - e') = of_int (2 ^ nat (e - e'))" using le by (simp add: pow2_def)
      finally have "y = of_int (m * 2 ^ nat (e - e')) * pow2 e'" by (simp add: y)
      then show ?thesis by blast
    qed
    then obtain m' where "y = of_int m' * pow2 e'" by blast
    with ypos ylt show ?thesis unfolding e'_def by (intro fl_round_fixed)
  qed
qed

lemma fl_round_idem:
  assumes "fl_round x = Finite y"
  shows "fl_round y = Finite y"
proof -
  consider "x = 0" | "0 < x" | "x < 0" by linarith
  then show ?thesis
  proof cases
    case 1
    with assms show ?thesis by simp
  next
    case 2
    then show ?thesis using assms by (rule fl_round_pos_idem)
  next
    case 3
    then have pos: "0 < - x" by simp
    have "fl_round (- x) = Finite (- y)"
      using assms by (simp add: fl_round_minus)
    with pos have "fl_round (- y) = Finite (- y)" by (rule fl_round_pos_idem)
    then show ?thesis
      using fl_round_minus [of "- y"] by (simp split: pyfloat.splits)
  qed
qed


lemma fl_round_evalI:
  assumes "0 < x" "pow2 k \<le> x" "x < pow2 (k + 1)"
    and "\<bar>x / pow2 (max (k - 52) (- 1074)) - of_int m\<bar> < 1 / 2"
    and "y = of_int m * pow2 (max (k - 52) (- 1074))"
    and "y < 2 ^ 1024"
  shows "fl_round x = Finite y"
  using fl_round_pos_eval [OF assms(1-3) refl round_half_even_unique [OF assms(4)]] assms(5,6)
  by simp

section \<open>The float operations at the inputs used below\<close>

text \<open>Each rounding is justified by its binary exponent \<open>k\<close> and its significand \<open>m\<close>.\<close>

lemma fl_round_1: "fl_round 1 = Finite 1"
  by (rule fl_round_evalI [where k = "0" and m = 4503599627370496]) (simp_all add: pow2_def)

lemma fl_round_3: "fl_round 3 = Finite 3"
  by (rule fl_round_evalI [where k = "1" and m = 6755399441055744]) (simp_all add: pow2_def)

lemma fl_round_5: "fl_round 5 = Finite 5"
  by (rule fl_round_evalI [where k = "2" and m = 5629499534213120]) (simp_all add: pow2_def)

lemma fl_round_10: "fl_round 10 = Finite 10"
  by (rule fl_round_evalI [where k = "3" and m = 5629499534213120]) (simp_all add: pow2_def)

lemma fl_round_15: "fl_round 15 = Finite 15"
  by (rule fl_round_evalI [where k = "3" and m = 8444249301319680]) (simp_all add: pow2_def)

lemma fl_round_90: "fl_round 90 = Finite 90"
  by (rule fl_round_evalI [where k = "6" and m = 6333186975989760]) (simp_all add: pow2_def)

lemma fl_round_100: "fl_round 100 = Finite 100"
  by (rule fl_round_evalI [where k = "6" and m = 7036874417766400]) (simp_all add: pow2_def)

lemma fl_round_115: "fl_round 115 = Finite 115"
  by (rule fl_round_evalI [where k = "6" and m = 8092405580431360]) (simp_all add: pow2_def)

lemma fl_round_120: "fl_round 120 = Finite 120"
  by (rule fl_round_evalI [where k = "6" and m = 8444249301319680]) (simp_all add: pow2_def)

lemma fl_round_115_100: "fl_round (23 / 20) = Finite (2589569785738035 / 2251799813685248)"
  by (rule fl_round_evalI [where k = "0" and m = 5179139571476070]) (simp_all add: pow2_def)

lemma fl_round_1_100: "fl_round (1 / 100) = Finite (5764607523034235 / 576460752303423488)"
  by (rule fl_round_evalI [where k = "-7" and m = 5764607523034235]) (simp_all add: pow2_def)

lemma fl_round_100_markup: "fl_round (64739244643450875 / 562949953421312) = Finite (8092405580431359 / 70368744177664)"
  by (rule fl_round_evalI [where k = "6" and m = 8092405580431359]) (simp_all add: pow2_def)

lemma fl_round_11499_100: "fl_round (11499 / 100) = Finite (8091701892989583 / 70368744177664)"
  by (rule fl_round_evalI [where k = "6" and m = 8091701892989583]) (simp_all add: pow2_def)

lemma fl_round_diff_11499: "fl_round (703687441777 / 70368744177664) = Finite (703687441777 / 70368744177664)"
  by (rule fl_round_evalI [where k = "-7" and m = 5764607523037184]) (simp_all add: pow2_def)

lemma fl_round_313_10: "fl_round (313 / 10) = Finite (8810166771043533 / 281474976710656)"
  by (rule fl_round_evalI [where k = "4" and m = 8810166771043533]) (simp_all add: pow2_def)

lemma fl_round_313_markup: "fl_round (22814541677607557409317518877655 / 633825300114114700748351602688) = Finite (5065845893350031 / 140737488355328)"
  by (rule fl_round_evalI [where k = "5" and m = 5065845893350031]) (simp_all add: pow2_def)

lemma fl_round_3599_100: "fl_round (3599 / 100) = Finite (5065142205908255 / 140737488355328)"
  by (rule fl_round_evalI [where k = "5" and m = 5065142205908255]) (simp_all add: pow2_def)


lemma markup_eq: "markup = Finite (2589569785738035 / 2251799813685248)"
  by (simp add: markup_def fl_round_115_100)

lemma tolerance_eq: "tolerance = Finite (5764607523034235 / 576460752303423488)"
  by (simp add: tolerance_def fl_round_1_100)

lemmas parse_defs = float_of_str_def strip_chars_def float_space_def parse_decimal_def
  take_sign_def is_digit_def take_exponent_def digit_val_def pow10_def parse_inf_nan_def
  ascii_lower_def

lemma float_of_int_3: "float_of_int 3 = Inr (Finite 3)"
  by (simp add: float_of_int_def fl_round_3)

lemma float_of_int_10: "float_of_int 10 = Inr (Finite 10)"
  by (simp add: float_of_int_def fl_round_10)

lemma float_of_int_115: "float_of_int 115 = Inr (Finite 115)"
  by (simp add: float_of_int_def fl_round_115)

lemma float_of_str_3: "float_of_str ''3'' = Some (Finite 3)"
  by (simp add: parse_defs fl_round_3)

lemma float_of_str_90: "float_of_str ''90'' = Some (Finite 90)"
  by (simp add: parse_defs fl_round_90)

lemma float_of_str_120: "float_of_str ''120'' = Some (Finite 120)"
  by (simp add: parse_defs fl_round_120)

lemma float_of_str_100_00: "float_of_str ''100.00'' = Some (Finite 100)"
  by (simp add: parse_defs fl_round_100)

lemma float_of_str_115_00: "float_of_str ''115.00'' = Some (Finite 115)"
  by (simp add: parse_defs fl_round_115)

lemma float_of_str_114_99: "float_of_str ''114.99'' = Some (Finite (8091701892989583 / 70368744177664))"
  by (simp add: parse_defs fl_round_11499_100)

lemma float_of_str_31_30: "float_of_str ''31.30'' = Some (Finite (8810166771043533 / 281474976710656))"
  by (simp add: parse_defs fl_round_313_10)

lemma float_of_str_minus_1: "float_of_str ''-1.00'' = Some (Finite (- 1))"
  using fl_round_minus [of 1] by (simp add: parse_defs fl_round_1)

lemma float_of_str_minus_5: "float_of_str ''-5.00'' = Some (Finite (- 5))"
  using fl_round_minus [of 5] by (simp add: parse_defs fl_round_5)

lemma float_of_str_not_a_number: "float_of_str ''n/a'' = None"
  by (simp add: parse_defs)

lemma float_of_str_abc: "float_of_str ''abc'' = None"
  by (simp add: parse_defs)

lemma round_half_even_11500: "round_half_even (202310139510783975 / 17592186044416) = 11500"
  by (rule round_half_even_unique) simp

lemma round_half_even_3599: "round_half_even (126646147333750775 / 35184372088832) = 3599"
  by (rule round_half_even_unique) simp

lemma floor_3599: "\<lfloor>5065142205908255 / 140737488355328 :: rat\<rfloor> = 35"
  by (simp add: floor_eq_iff)

lemma target_price_of_100: "target_price_of (Finite 100) = Inr 115"
  by (simp add: target_price_of_def markup_eq fl_round_100_markup bind_err_def
        round_half_even_11500 fl_round_115 round_to_5_or_10_def py_trunc_def)

lemma target_price_of_31_30: "target_price_of (Finite (8810166771043533 / 281474976710656)) = Inr 35"
  by (simp add: target_price_of_def markup_eq fl_round_313_markup bind_err_def
        round_half_even_3599 fl_round_3599_100 round_to_5_or_10_def py_trunc_def floor_3599)

lemma price_decision_100_100:
  "price_decision (Finite 100) (JStr ''100.00'') = Inr (Update (Finite 100) 115)"
  using fl_round_minus [of 15]
  by (simp add: price_decision_def target_price_of_100 bind_err_def float_of_str_100_00
        at_or_above_target_def float_of_int_115 fl_round_15 tolerance_eq)

lemma price_decision_100_115:
  "price_decision (Finite 100) (JStr ''115.00'') = Inr (Skip (Finite 115))"
  by (simp add: price_decision_def target_price_of_100 bind_err_def float_of_str_115_00
        at_or_above_target_def float_of_int_115 tolerance_eq)

lemma price_decision_100_114_99:
  "price_decision (Finite 100) (JStr ''114.99'')
     = Inr (Update (Finite (8091701892989583 / 70368744177664)) 115)"
  using fl_round_minus [of "703687441777 / 70368744177664"]
  by (simp add: price_decision_def target_price_of_100 bind_err_def float_of_str_114_99
        at_or_above_target_def float_of_int_115 fl_round_diff_11499 tolerance_eq)

lemma str_of_int_115: "str_of_int 115 = ''115''"
  by (simp add: str_of_int_def char_of_def bit_iff_odd_drop_bit)

section \<open>Properties\<close>


subsection \<open>Price rounding\<close>

lemma round_to_5_or_10_Finite:
  "round_to_5_or_10 (Finite r) =
     Inr (let t = py_trunc r in
          if t mod 10 = 0 \<or> t mod 10 = 5 then t
          else if t mod 10 < 5 then t - t mod 10 + 5 else t - t mod 10 + 10)"
  by (simp add: round_to_5_or_10_def Let_def)

text \<open>
  Claim C9.  For every price \<open>P \<ge> 0\<close> the rounding policy returns a result (it does
  not raise); with \<open>t\<close> the truncation of \<open>P\<close> to whole units, the result is \<open>t\<close> itself
  when the last digit of \<open>t\<close> is 0 or 5, the next multiple of 5 above \<open>t\<close> when
  \<open>t mod 10\<close> is below 5, and the next multiple of 10 above \<open>t\<close> otherwise.  For every
  integer \<open>P\<close> (of either sign) the result is a multiple of 5 and is at least \<open>P\<close>.
\<close>

theorem round_to_5_or_10_policy:
  "(0 \<le> r \<longrightarrow>
      (\<exists>n. round_to_5_or_10 (Finite r) = Inr n \<and>
           (\<lfloor>r\<rfloor> mod 10 = 0 \<or> \<lfloor>r\<rfloor> mod 10 = 5 \<longrightarrow> n = \<lfloor>r\<rfloor>) \<and>
           (\<lfloor>r\<rfloor> mod 10 \<noteq> 0 \<and> \<lfloor>r\<rfloor> mod 10 < 5 \<longrightarrow>
              n mod 5 = 0 \<and> \<lfloor>r\<rfloor> < n \<and> n < \<lfloor>r\<rfloor> + 5) \<and>
           (5 < \<lfloor>r\<rfloor> mod 10 \<longrightarrow>
              n mod 10 = 0 \<and> \<lfloor>r\<rfloor> < n \<and> n < \<lfloor>r\<rfloor> + 10) \<and>
           n mod 5 = 0 \<and> \<lfloor>r\<rfloor> \<le> n))
   \<and> (\<exists>n. round_to_5_or_10 (Finite (of_int P)) = Inr n \<and> n mod 5 = 0 \<and> P \<le> n)"
proof (intro conjI impI)
  assume r: "0 \<le> r"
  define t where "t = \<lfloor>r\<rfloor>"
  have tr: "py_trunc r = t"
    using r by (simp add: py_trunc_def t_def)
  show "\<exists>n. round_to_5_or_10 (Finite r) = Inr n \<and>
           (\<lfloor>r\<rfloor> mod 10 = 0 \<or> \<lfloor>r\<rfloor> mod 10 = 5 \<longrightarrow> n = \<lfloor>r\<rfloor>) \<and>
           (\<lfloor>r\<rfloor> mod 10 \<noteq> 0 \<and> \<lfloor>r\<rfloor> mod 10 < 5 \<longrightarrow>
              n mod 5 = 0 \<and> \<lfloor>r\<rfloor> < n \<and> n < \<lfloor>r\<rfloor> + 5) \<and>
           (5 < \<lfloor>r\<rfloor> mod 10 \<longrightarrow>
              n mod 10 = 0 \<and> \<lfloor>r\<rfloor> < n \<and> n < \<lfloor>r\<rfloor> + 10) \<and>
           n mod 5 = 0 \<and> \<lfloor>r\<rfloor> \<le> n"
    unfolding round_to_5_or_10_Finite tr t_def [symmetric] Let_def
    by (intro exI conjI impI, rule refl) presburger+
next
  have tr: "py_trunc (of_int P) = P"
    by (simp add: py_trunc_def)
  show "\<exists>n. round_to_5_or_10 (Finite (of_int P)) = Inr n \<and> n mod 5 = 0 \<and> P \<le> n"
    unfolding round_to_5_or_10_Finite tr Let_def
    by (intro exI conjI, rule refl) presburger+
qed

theorem round_to_5_or_10_policy_witness:
  "round_to_5_or_10 (Finite (1013 / 10)) = Inr 105
   \<and> round_to_5_or_10 (Finite (of_int (- 3))) = Inr 0"
proof -
  have fl: "\<lfloor>1013 / 10 :: rat\<rfloor> = 101"
    by (simp add: floor_eq_iff)
  show ?thesis
    using round_to_5_or_10_policy [of "1013 / 10" "- 3"]
    by (simp add: round_to_5_or_10_Finite py_trunc_def fl)
qed


subsection \<open>The join on the SKU\<close>

text \<open>
  Claim C1.  The claim asks that the key of a record in the POS map be the
  normalisation of its raw identifier, as the lookup key of a storefront SKU is.  The
  script stores the record under \<open>str(item["ID"])\<close> without \<open>sanitize_sku\<close>: for the POS
  identifier \<open>A1\<close> followed by a carriage return the key keeps the carriage return, the
  storefront SKU with the very same text is looked up as \<open>A1\<close>, and the entry is reported
  as having no match.
\<close>

theorem pos_key_not_sanitized:
  "get_all_pos_inventory (\<lambda>v. [])
       (Response (Some (JList [JDict [(''ID'', JStr [CHR ''A'', CHR ''1'', CHR 0x0D]),
                                      (''Qua'', JInt 3), (''Price'', JInt 10)]])) None)
     = ([Print Pos_Fetching, Get_Pos, Print (Pos_Loaded 1)],
        Inr (Some [([CHR ''A'', CHR ''1'', CHR 0x0D],
                    \<lparr>entry_quantity = 3, entry_price = Finite 10\<rparr>)]))
   \<and> sanitize_sku (JStr [CHR ''A'', CHR ''1'', CHR 0x0D]) = ''A1''
   \<and> sync_item [([CHR ''A'', CHR ''1'', CHR 0x0D],
                  \<lparr>entry_quantity = 3, entry_price = Finite 10\<rparr>)]
        Request_Failed Request_Failed
        \<lparr>item_sku = JStr [CHR ''A'', CHR ''1'', CHR 0x0D], item_inventory_item_id = JInt 7,
         item_variant_id = JInt 8, item_current_price = JStr ''11.50'',
         item_compare_at_price = JNull\<rparr>
     = ([Print (No_Match (JStr [CHR ''A'', CHR ''1'', CHR 0x0D]))], None)"
  by (simp add: get_all_pos_inventory_def pos_item_def bind_err_def float_of_int_3
        float_of_int_10 py_trunc_def sync_item_def isprintable_def)

subsection \<open>The POS snapshot\<close>

text \<open>
  Claim C6.  The claim asks that a malformed record be dropped and every well-formed
  record be kept.  A record that has the three keys but a quantity that is not a number
  makes \<open>float\<close> raise \<open>ValueError\<close> inside the loop; the handler meant for an
  unparseable response catches it and the whole snapshot is \<open>None\<close>, the well-formed
  record \<open>A1\<close> included.
\<close>

theorem malformed_record_aborts_snapshot:
  "get_all_pos_inventory (\<lambda>v. [])
       (Response (Some (JList
          [JDict [(''ID'', JStr ''A1''), (''Qua'', JStr ''3''), (''Price'', JStr ''3'')],
           JDict [(''ID'', JStr ''B2''), (''Qua'', JStr ''n/a''), (''Price'', JStr ''3'')]]))
          None)
     = ([Print Pos_Fetching, Get_Pos, Print Pos_Parse_Error], Inr None)"
  by (simp add: get_all_pos_inventory_def pos_item_def bind_err_def float_of_str_3
        float_of_str_not_a_number py_trunc_def)

subsection \<open>Exceptions in the loop of \<open>main\<close>\<close>

text \<open>
  Claim C7.  The claim asks that every sync operation return an outcome for every
  response content, so that one entry never stops the following ones.  For the stock
  response \<open>{"data": null}\<close> the second \<open>.get\<close> of \<open>update_shopify_stock\<close> is
  applied to \<open>None\<close> and raises \<open>AttributeError\<close>, which no handler catches: the loop
  ends at the first entry, nothing is sent for the second, and the exception leaves
  \<open>main\<close>.
\<close>

theorem stock_response_null_data_escapes:
  "update_shopify_stock (Response (Some (JDict [(''data'', JNull)])) None)
       (JInt 7) (JStr ''A1'') 3
     = ([Post_Stock (JInt 7) 3], Inl AttributeError)
   \<and> sync_items [(''A1'', \<lparr>entry_quantity = 3, entry_price = Finite 10\<rparr>),
                  (''B2'', \<lparr>entry_quantity = 4, entry_price = Finite 12\<rparr>)]
        \<lparr>shopify_pages = (\<lambda>n. Request_Failed), pos_export = Request_Failed,
         stock_mutation = (\<lambda>i. if i = 0 then Response (Some (JDict [(''data'', JNull)])) None
                                else Response (Some (JDict [])) None),
         price_mutation = (\<lambda>i. Response None None)\<rparr> 0
        [\<lparr>item_sku = JStr ''A1'', item_inventory_item_id = JInt 7,
          item_variant_id = JInt 8, item_current_price = JStr ''11.50'',
          item_compare_at_price = JNull\<rparr>,
         \<lparr>item_sku = JStr ''B2'', item_inventory_item_id = JInt 9,
          item_variant_id = JInt 10, item_current_price = JStr ''13.80'',
          item_compare_at_price = JNull\<rparr>]
     = ([Post_Stock (JInt 7) 3], Some AttributeError)
   \<and> main (Suc (Suc 0)) (\<lambda>var. Some ''x'') (\<lambda>v. [])
        \<lparr>shopify_pages = (\<lambda>n. Response (Some (JDict [(''products'',
             JList [JDict [(''variants'', JList
               [JDict [(''sku'', JStr ''A1''), (''inventory_item_id'', JInt 7), (''id'', JInt 8),
                       (''price'', JStr ''11.50'')],
                JDict [(''sku'', JStr ''B2''), (''inventory_item_id'', JInt 9), (''id'', JInt 10),
                       (''price'', JStr ''13.80'')]])]])])) None),
         pos_export = Response (Some (JList
             [JDict [(''ID'', JStr ''A1''), (''Qua'', JInt 3), (''Price'', JInt 10)],
              JDict [(''ID'', JStr ''B2''), (''Qua'', JInt 3), (''Price'', JInt 10)]])) None,
         stock_mutation = (\<lambda>i. if i = 0 then Response (Some (JDict [(''data'', JNull)])) None
                                else Response (Some (JDict [])) None),
         price_mutation = (\<lambda>i. Response None None)\<rparr>
     = Some ([Get_Products (products_url ''x''), Print (Shopify_Retrieved 2),
              Print Pos_Fetching, Get_Pos, Print (Pos_Loaded 2), Print (Comparing 2 2),
              Post_Stock (JInt 7) 3],
             Some AttributeError)"
proof -
  let ?a1 = "\<lparr>item_sku = JStr ''A1'', item_inventory_item_id = JInt 7,
          item_variant_id = JInt 8, item_current_price = JStr ''11.50'',
          item_compare_at_price = JNull\<rparr>"
  let ?b2 = "\<lparr>item_sku = JStr ''B2'', item_inventory_item_id = JInt 9,
          item_variant_id = JInt 10, item_current_price = JStr ''13.80'',
          item_compare_at_price = JNull\<rparr>"
  let ?inventory = "[(''A1'', \<lparr>entry_quantity = 3, entry_price = Finite 10\<rparr>),
                     (''B2'', \<lparr>entry_quantity = 3, entry_price = Finite 10\<rparr>)]"
  let ?stock = "\<lambda>i :: nat. if i = 0 then Response (Some (JDict [(''data'', JNull)])) None
                                else Response (Some (JDict [])) None"
  have stock: "update_shopify_stock (Response (Some (JDict [(''data'', JNull)])) None)
       (JInt 7) (JStr ''A1'') 3 = ([Post_Stock (JInt 7) 3], Inl AttributeError)"
    by (simp add: update_shopify_stock_def bind_err_def)
  have first: "sync_item inventory (Response (Some (JDict [(''data'', JNull)])) None) price_resp ?a1
      = ([Post_Stock (JInt 7) 3], Some AttributeError)"
    if "map_of inventory ''A1'' = Some \<lparr>entry_quantity = 3, entry_price = Finite 10\<rparr>"
    for inventory price_resp
    using that by (simp add: sync_item_def stock isprintable_def)
  have listing: "get_shopify_skus (Suc (Suc 0)) ''x''
        (\<lambda>n. Response (Some (JDict [(''products'',
             JList [JDict [(''variants'', JList
               [JDict [(''sku'', JStr ''A1''), (''inventory_item_id'', JInt 7), (''id'', JInt 8),
                       (''price'', JStr ''11.50'')],
                JDict [(''sku'', JStr ''B2''), (''inventory_item_id'', JInt 9), (''id'', JInt 10),
                       (''price'', JStr ''13.80'')]])]])])) None)
      = Some ([Get_Products (products_url ''x''), Print (Shopify_Retrieved 2)],
              Inr (Some [?a1, ?b2]))"
    by (simp add: get_shopify_skus_def products_url_def bind_err_def next_url_def
          variant_entry_def)
  have pos: "get_all_pos_inventory (\<lambda>v. []) (Response (Some (JList
             [JDict [(''ID'', JStr ''A1''), (''Qua'', JInt 3), (''Price'', JInt 10)],
              JDict [(''ID'', JStr ''B2''), (''Qua'', JInt 3), (''Price'', JInt 10)]])) None)
      = ([Print Pos_Fetching, Get_Pos, Print (Pos_Loaded 2)], Inr (Some ?inventory))"
    by (simp add: get_all_pos_inventory_def pos_item_def bind_err_def float_of_int_3
          float_of_int_10 py_trunc_def)
  show ?thesis
    by (simp add: stock first main_def required_vars_def env_value_def listing pos)
qed

subsection \<open>Stock first, price afterwards\<close>



subsection \<open>A current price that does not parse\<close>

lemma has_discount_unparseable_current:
  assumes "py_float current_shopify_price = Inl e" "is_value_or_type_error e"
    and "compare_at_price = JNull \<or> (\<exists>s. compare_at_price = JStr s)"
  shows "has_discount current_shopify_price compare_at_price = Inr False"
  using assms by (auto simp: has_discount_def split: option.splits sum.splits)

text \<open>
  Claim C8, as amended.  When \<open>float\<close> rejects the current storefront price
  (\<open>ValueError\<close> or \<open>TypeError\<close>), the reference price is absent or a text and the
  target price is computed, the price sync prints the line "cannot parse current
  price" for the entry and returns \<open>False\<close>; this report is not the one of an entry
  already at its target, and no price request is sent.
\<close>

theorem unparseable_price_reported:
  assumes "py_float current_shopify_price = Inl e" "is_value_or_type_error e"
    and "compare_at_price = JNull \<or> (\<exists>s. compare_at_price = JStr s)"
    and "target_price_of pos_price = Inr target_price"
  shows "update_shopify_price resp variant_id sku pos_price current_shopify_price compare_at_price
           = ([Print (Cannot_Parse_Price sku current_shopify_price)], Inr False)
       \<and> (\<forall>c. fst (update_shopify_price resp variant_id sku pos_price current_shopify_price
                     compare_at_price) \<noteq> [Print (Already_At_Target sku c)])
       \<and> (\<forall>p. Put_Price variant_id p \<notin> set (fst (update_shopify_price resp variant_id sku
                     pos_price current_shopify_price compare_at_price)))"
  using assms has_discount_unparseable_current [OF assms(1-3)]
  by (simp add: update_shopify_price_def price_decision_def bind_err_def)

theorem unparseable_price_reported_witness:
  "py_float (JStr ''abc'') = Inl ValueError
   \<and> target_price_of (Finite 100) = Inr 115
   \<and> update_shopify_price (Response None None) (JInt 8) (JStr ''A1'') (Finite 100)
        (JStr ''abc'') (JStr ''120.00'')
       = ([Print (Cannot_Parse_Price (JStr ''A1'') (JStr ''abc''))], Inr False)"
proof -
  have parse: "py_float (JStr ''abc'') = Inl ValueError"
    by (simp add: float_of_str_abc)
  have err: "is_value_or_type_error ValueError"
    by simp
  have cmp: "JStr ''120.00'' = JNull \<or> (\<exists>s. JStr ''120.00'' = JStr s)"
    by simp
  show ?thesis
    using parse target_price_of_100
      unparseable_price_reported [OF parse err cmp target_price_of_100,
        of "Response None None" "JInt 8" "JStr ''A1''"]
    by simp
qed

text \<open>
  Claim C8 as stated does not hold: the texts \<open>inf\<close> and \<open>nan\<close> are no decimals, yet
  \<open>float\<close> accepts them.  For the current price \<open>inf\<close> the price sync prints the line
  of an entry already at its target; for \<open>nan\<close> both comparisons are false and the
  price request is sent.
\<close>

theorem inf_and_nan_are_not_parse_failures:
  "parse_decimal ''inf'' = None
   \<and> update_shopify_price (Response None None) (JInt 8) (JStr ''A1'') (Finite 100)
        (JStr ''inf'') JNull
       = ([Print (Already_At_Target (JStr ''A1'') PosInf)], Inr False)
   \<and> parse_decimal ''nan'' = None
   \<and> update_shopify_price (Response None None) (JInt 8) (JStr ''A1'') (Finite 100)
        (JStr ''nan'') JNull
       = ([Put_Price (JInt 8) ''115'',
           Print (Price_Updated (JStr ''A1'') NaN 115 (Finite 100))], Inr True)"
proof -
  have inf: "float_of_str ''inf'' = Some PosInf"
    by (simp add: parse_defs)
  have nan: "float_of_str ''nan'' = Some NaN"
    by (simp add: parse_defs)
  have dec: "parse_decimal ''inf'' = None" "parse_decimal ''nan'' = None"
    by (simp_all add: parse_decimal_def take_sign_def is_digit_def take_exponent_def)
  have step_inf: "price_decision (Finite 100) (JStr ''inf'') = Inr (Skip PosInf)"
    by (simp add: price_decision_def target_price_of_100 bind_err_def inf
          at_or_above_target_def float_of_int_115 tolerance_eq)
  have step_nan: "price_decision (Finite 100) (JStr ''nan'') = Inr (Update NaN 115)"
    by (simp add: price_decision_def target_price_of_100 bind_err_def nan
          at_or_above_target_def float_of_int_115 tolerance_eq)
  show ?thesis
    by (simp add: dec update_shopify_price_def has_discount_def step_inf step_nan
          str_of_int_115)
qed

subsection \<open>Empty snapshots\<close>

lemma shopify_loop_events:
  "shopify_loop fuel pages k url skus = Some (tr, r) \<Longrightarrow> ev \<in> set tr
     \<Longrightarrow> (\<exists>u. ev = Get_Products u) \<or> (\<exists>m. ev = Print m)"
proof (induction fuel arbitrary: k url skus tr r)
  case 0
  then show ?case by simp
next
  case (Suc fuel)
  show ?case
  proof (cases "url = []")
    case True
    with Suc.prems show ?thesis by auto
  next
    case False
    with Suc.prems show ?thesis
      by (auto split: http_resp.splits option.splits sum.splits if_splits prod.splits
               dest: Suc.IH)
  qed
qed

lemma get_shopify_skus_events:
  "get_shopify_skus fuel store pages = Some (tr, r) \<Longrightarrow> ev \<in> set tr
     \<Longrightarrow> (\<exists>u. ev = Get_Products u) \<or> (\<exists>m. ev = Print m)"
  unfolding get_shopify_skus_def by (rule shopify_loop_events)

lemma get_all_pos_inventory_events:
  "get_all_pos_inventory repr resp = (tr, r) \<Longrightarrow> ev \<in> set tr
     \<Longrightarrow> ev = Get_Pos \<or> (\<exists>m. ev = Print m)"
  by (auto simp: get_all_pos_inventory_def
           split: http_resp.splits option.splits sum.splits if_splits)

text \<open>
  Claim C10.  With the configuration present: when the storefront listing returns an
  empty list, \<open>main\<close> prints the same line and ends in the same way as when the listing
  returns \<open>None\<close>, and no request has been sent to the POS.  When the storefront list
  is not empty and the POS map is \<open>None\<close> or empty, \<open>main\<close> prints the same line in
  both cases and ends without a stock or a price request.
\<close>

theorem empty_snapshot_aborts:
  assumes env: "filter (\<lambda>var. env_value getenv var = []) required_vars = []"
  shows "(get_shopify_skus fuel (env_value getenv ''SHOPIFY_STORE'') (shopify_pages w)
             = Some (listing_trace, Inr shopify_skus)
            \<and> (shopify_skus = None \<or> shopify_skus = Some [])
          \<longrightarrow> main fuel getenv repr w = Some (listing_trace @ [Print No_Skus_Exit], None)
              \<and> Get_Pos \<notin> set (listing_trace @ [Print No_Skus_Exit]))
       \<and> (get_shopify_skus fuel (env_value getenv ''SHOPIFY_STORE'') (shopify_pages w)
             = Some (listing_trace, Inr (Some (item # items)))
            \<and> get_all_pos_inventory repr (pos_export w) = (pos_trace, Inr pos_inventory)
            \<and> (pos_inventory = None \<or> pos_inventory = Some [])
          \<longrightarrow> main fuel getenv repr w = Some (listing_trace @ pos_trace @ [Print No_Pos_Exit], None)
              \<and> (\<forall>a q. Post_Stock a q \<notin> set (listing_trace @ pos_trace @ [Print No_Pos_Exit]))
              \<and> (\<forall>a p. Put_Price a p \<notin> set (listing_trace @ pos_trace @ [Print No_Pos_Exit])))"
proof (intro conjI impI)
  assume h: "get_shopify_skus fuel (env_value getenv ''SHOPIFY_STORE'') (shopify_pages w)
             = Some (listing_trace, Inr shopify_skus) \<and> (shopify_skus = None \<or> shopify_skus = Some [])"
  then show "main fuel getenv repr w = Some (listing_trace @ [Print No_Skus_Exit], None)"
    using env by (auto simp: main_def)
  from h show "Get_Pos \<notin> set (listing_trace @ [Print No_Skus_Exit])"
    by (auto dest: get_shopify_skus_events)
next
  assume h: "get_shopify_skus fuel (env_value getenv ''SHOPIFY_STORE'') (shopify_pages w)
             = Some (listing_trace, Inr (Some (item # items)))
            \<and> get_all_pos_inventory repr (pos_export w) = (pos_trace, Inr pos_inventory)
            \<and> (pos_inventory = None \<or> pos_inventory = Some [])"
  then show "main fuel getenv repr w = Some (listing_trace @ pos_trace @ [Print No_Pos_Exit], None)"
    using env by (auto simp: main_def)
  from h show "\<forall>a q. Post_Stock a q \<notin> set (listing_trace @ pos_trace @ [Print No_Pos_Exit])"
    by (auto dest: get_shopify_skus_events get_all_pos_inventory_events)
  from h show "\<forall>a p. Put_Price a p \<notin> set (listing_trace @ pos_trace @ [Print No_Pos_Exit])"
    by (auto dest: get_shopify_skus_events get_all_pos_inventory_events)
qed

theorem empty_snapshot_aborts_witness:
  "main (Suc (Suc 0)) (\<lambda>var. Some ''x'') (\<lambda>v. [])
        \<lparr>shopify_pages = (\<lambda>n. Response (Some (JDict [(''products'', JList [])])) None),
         pos_export = Request_Failed,
         stock_mutation = (\<lambda>i. Request_Failed), price_mutation = (\<lambda>i. Request_Failed)\<rparr>
     = Some ([Get_Products (products_url ''x''), Print (Shopify_Retrieved 0),
              Print No_Skus_Exit], None)
   \<and> main (Suc (Suc 0)) (\<lambda>var. Some ''x'') (\<lambda>v. [])
        \<lparr>shopify_pages = (\<lambda>n. Response (Some (JDict [(''products'',
             JList [JDict [(''variants'', JList [JDict [(''sku'', JStr ''A1''),
               (''inventory_item_id'', JInt 7), (''id'', JInt 8),
               (''price'', JStr ''100.00'')]])]])])) None),
         pos_export = Response (Some (JList [])) None,
         stock_mutation = (\<lambda>i. Request_Failed), price_mutation = (\<lambda>i. Request_Failed)\<rparr>
     = Some ([Get_Products (products_url ''x''), Print (Shopify_Retrieved 1),
              Print Pos_Fetching, Get_Pos, Print (Pos_Loaded 0), Print No_Pos_Exit], None)"
proof -
  let ?getenv = "\<lambda>var :: string. Some ''x''"
  let ?w1 = "\<lparr>shopify_pages = (\<lambda>n. Response (Some (JDict [(''products'', JList [])])) None),
         pos_export = Request_Failed,
         stock_mutation = (\<lambda>i. Request_Failed), price_mutation = (\<lambda>i. Request_Failed)\<rparr>"
  let ?w2 = "\<lparr>shopify_pages = (\<lambda>n. Response (Some (JDict [(''products'',
             JList [JDict [(''variants'', JList [JDict [(''sku'', JStr ''A1''),
               (''inventory_item_id'', JInt 7), (''id'', JInt 8),
               (''price'', JStr ''100.00'')]])]])])) None),
         pos_export = Response (Some (JList [])) None,
         stock_mutation = (\<lambda>i. Request_Failed), price_mutation = (\<lambda>i. Request_Failed)\<rparr>"
  let ?item = "\<lparr>item_sku = JStr ''A1'', item_inventory_item_id = JInt 7, item_variant_id = JInt 8,
         item_current_price = JStr ''100.00'', item_compare_at_price = JNull\<rparr>"
  have env: "filter (\<lambda>var. env_value ?getenv var = []) required_vars = []"
    by (simp add: required_vars_def env_value_def)
  have store: "env_value ?getenv ''SHOPIFY_STORE'' = ''x''"
    by (simp add: env_value_def)
  have l1: "get_shopify_skus (Suc (Suc 0)) ''x'' (shopify_pages ?w1)
      = Some ([Get_Products (products_url ''x''), Print (Shopify_Retrieved 0)], Inr (Some []))"
    by (simp add: get_shopify_skus_def products_url_def bind_err_def next_url_def)
  have l2: "get_shopify_skus (Suc (Suc 0)) ''x'' (shopify_pages ?w2)
      = Some ([Get_Products (products_url ''x''), Print (Shopify_Retrieved 1)],
              Inr (Some (?item # [])))"
    by (simp add: get_shopify_skus_def products_url_def bind_err_def next_url_def
          variant_entry_def)
  have p2: "get_all_pos_inventory (\<lambda>v. []) (pos_export ?w2)
      = ([Print Pos_Fetching, Get_Pos, Print (Pos_Loaded 0)], Inr (Some []))"
    by (simp add: get_all_pos_inventory_def bind_err_def)
  note a = empty_snapshot_aborts [OF env, where fuel = "Suc (Suc 0)" and w = ?w1
      and listing_trace = "[Get_Products (products_url ''x''), Print (Shopify_Retrieved 0)]"
      and shopify_skus = "Some []" and repr = "\<lambda>v. []", THEN conjunct1]
  note b = empty_snapshot_aborts [OF env, where fuel = "Suc (Suc 0)" and w = ?w2
      and listing_trace = "[Get_Products (products_url ''x''), Print (Shopify_Retrieved 1)]"
      and item = ?item and items = "[]" and repr = "\<lambda>v. []"
      and pos_trace = "[Print Pos_Fetching, Get_Pos, Print (Pos_Loaded 0)]"
      and pos_inventory = "Some []", THEN conjunct2]
  show ?thesis
    using a b l1 l2 p2 by (simp add: store)
qed

subsection \<open>The discount check\<close>


lemma strip_chars_empty:
  assumes "strip_chars P s = []"
  shows "\<forall>c \<in> set s. P c"
proof -
  from assms have "dropWhile P (rev (dropWhile P s)) = []"
    by (simp add: strip_chars_def)
  then have "\<forall>c \<in> set (dropWhile P s). P c"
    by (simp add: dropWhile_eq_Nil_conv)
  moreover have "\<forall>c \<in> set (takeWhile P s). P c"
    by (auto dest: set_takeWhileD)
  moreover have "set s = set (takeWhile P s) \<union> set (dropWhile P s)"
    by (metis set_append takeWhile_dropWhile_id)
  ultimately show ?thesis by auto
qed

lemma set_strip_chars: "set (strip_chars P s) \<subseteq> set s"
proof -
  have "set (dropWhile P (rev (dropWhile P s))) \<subseteq> set (rev (dropWhile P s))"
    by (auto dest: set_dropWhileD)
  also have "\<dots> \<subseteq> set s"
    by (auto dest: set_dropWhileD)
  finally show ?thesis by (simp add: strip_chars_def)
qed

lemma isspace_char:
  assumes "isspace c"
  shows "c \<noteq> CHR ''-''" "c \<noteq> CHR ''+''" "c \<noteq> CHR ''.''" "c \<noteq> CHR ''i''" "c \<noteq> CHR ''n''"
    "\<not> is_digit c" "ascii_lower c = c"
proof -
  have ne: "c \<noteq> d" if "\<not> isspace d" for d
    using assms that by auto
  show "c \<noteq> CHR ''-''" by (rule ne) (simp add: isspace_def)
  show "c \<noteq> CHR ''+''" by (rule ne) (simp add: isspace_def)
  show "c \<noteq> CHR ''.''" by (rule ne) (simp add: isspace_def)
  show "c \<noteq> CHR ''i''" by (rule ne) (simp add: isspace_def)
  show "c \<noteq> CHR ''n''" by (rule ne) (simp add: isspace_def)
  show "\<not> is_digit c"
    using assms unfolding isspace_def is_digit_def Let_def by linarith
  have "\<not> (65 \<le> (of_char c :: nat) \<and> (of_char c :: nat) \<le> 90)"
    using assms unfolding isspace_def Let_def by linarith
  then show "ascii_lower c = c"
    unfolding ascii_lower_def Let_def by (simp only: if_False)
qed

lemma parse_blank:
  assumes "\<forall>c \<in> set u. isspace c"
  shows "parse_decimal u = None" "parse_inf_nan u = None"
proof -
  show "parse_decimal u = None"
  proof (cases u)
    case Nil
    then show ?thesis by (simp add: parse_decimal_def take_sign_def take_exponent_def)
  next
    case (Cons c cs)
    with assms have "isspace c" by simp
    from isspace_char [OF this] Cons show ?thesis
      by (simp add: parse_decimal_def take_sign_def take_exponent_def)
  qed
  show "parse_inf_nan u = None"
  proof (cases u)
    case Nil
    then show ?thesis by (simp add: parse_inf_nan_def take_sign_def)
  next
    case (Cons c cs)
    with assms have "isspace c" by simp
    from isspace_char [OF this] Cons show ?thesis
      by (simp add: parse_inf_nan_def take_sign_def)
  qed
qed

lemma blank_not_float:
  assumes "strip_chars isspace s = []"
  shows "float_of_str s = None"
proof -
  from strip_chars_empty [OF assms] have "\<forall>c \<in> set s. isspace c" .
  with set_strip_chars [of float_space s]
  have "\<forall>c \<in> set (strip_chars float_space s). isspace c" by auto
  then have "\<forall>c \<in> set (filter (\<lambda>c. c \<noteq> CHR ''_'') (strip_chars float_space s)). isspace c"
    by simp
  from parse_blank [OF this] show ?thesis
    by (simp add: float_of_str_def Let_def)
qed

lemma py_float_str_error: "py_float (JStr s) = Inl e \<Longrightarrow> e = ValueError"
  by (simp split: option.splits)

lemma has_discount_text_iff:
  "has_discount current (JStr s) = Inr True \<longleftrightarrow>
     (\<exists>r c. py_float (JStr s) = Inr r \<and> py_float current = Inr c \<and> float_less c r)"
proof (cases "strip_chars isspace s = []")
  case True
  from blank_not_float [OF this] show ?thesis
    by (simp add: has_discount_def)
next
  case False
  then have "s \<noteq> []" by (auto simp: strip_chars_def)
  with False show ?thesis
    by (auto simp: has_discount_def split: option.splits sum.splits)
qed

text \<open>
  Claim C3, as amended.  The discount check returns \<open>False\<close> when the reference price
  is absent, and when it is a text that \<open>float\<close> rejects (it does not raise on such a
  text).  For a reference price that is a text, it returns \<open>True\<close> exactly when
  \<open>float\<close> accepts both the reference and the current price and the reference is the
  greater float; so a reference that is zero or negative gives \<open>False\<close> for every
  current price that is not negative.  With texts for both prices the check never
  raises.  When the check returns \<open>True\<close>, the price sync prints the discount line and
  returns: no target price is computed and no request is sent.
\<close>

theorem discount_guard:
  "has_discount current JNull = Inr False
   \<and> (py_float (JStr s) = Inl e \<longrightarrow> has_discount current (JStr s) = Inr False)
   \<and> (has_discount current (JStr s) = Inr True \<longleftrightarrow>
        (\<exists>r c. py_float (JStr s) = Inr r \<and> py_float current = Inr c \<and> float_less c r))
   \<and> (py_float (JStr s) = Inr (Finite r) \<and> r \<le> 0 \<and> py_float current = Inr (Finite c) \<and> 0 \<le> c
        \<longrightarrow> has_discount current (JStr s) = Inr False)
   \<and> (\<exists>b. has_discount (JStr t) (JStr s) = Inr b)
   \<and> (has_discount current compare = Inr True
        \<longrightarrow> update_shopify_price resp variant_id sku pos_price current compare
              = ([Print (Has_Discount sku)], Inr False))"
proof (intro conjI impI)
  show "has_discount current JNull = Inr False"
    by (simp add: has_discount_def)
  show "has_discount current (JStr s) = Inr False" if "py_float (JStr s) = Inl e"
    using that py_float_str_error [OF that]
    by (auto simp: has_discount_def split: option.splits)
  show "has_discount current (JStr s) = Inr True \<longleftrightarrow>
        (\<exists>r c. py_float (JStr s) = Inr r \<and> py_float current = Inr c \<and> float_less c r)"
    by (rule has_discount_text_iff)
  show "has_discount current (JStr s) = Inr False"
    if "py_float (JStr s) = Inr (Finite r) \<and> r \<le> 0 \<and> py_float current = Inr (Finite c) \<and> 0 \<le> c"
    using that by (auto simp: has_discount_def split: option.splits)
  show "\<exists>b. has_discount (JStr t) (JStr s) = Inr b"
    by (auto simp: has_discount_def split: option.splits)
  show "update_shopify_price resp variant_id sku pos_price current compare
              = ([Print (Has_Discount sku)], Inr False)"
    if "has_discount current compare = Inr True"
    using that by (simp add: update_shopify_price_def)
qed

theorem discount_guard_witness:
  "py_float (JStr ''abc'') = Inl ValueError
   \<and> has_discount (JStr ''90'') (JStr ''abc'') = Inr False
   \<and> has_discount (JStr ''90'') (JStr ''120'') = Inr True
   \<and> has_discount (JStr ''90'') (JStr ''-1.00'') = Inr False
   \<and> update_shopify_price Request_Failed (JInt 8) (JStr ''A1'') (Finite 100) (JStr ''90'')
        (JStr ''120'') = ([Print (Has_Discount (JStr ''A1''))], Inr False)"
proof -
  have 1: "py_float (JStr ''abc'') = Inl ValueError"
    by (simp add: float_of_str_abc)
  have 2: "\<exists>r c. py_float (JStr ''120'') = Inr r \<and> py_float (JStr ''90'') = Inr c \<and> float_less c r"
    by (simp add: float_of_str_90 float_of_str_120)
  have 3: "py_float (JStr ''-1.00'') = Inr (Finite (- 1)) \<and> (- 1 :: rat) \<le> 0
           \<and> py_float (JStr ''90'') = Inr (Finite 90) \<and> (0 :: rat) \<le> 90"
    by (simp add: float_of_str_90 float_of_str_minus_1)
  note a = discount_guard [of "JStr ''90''" "''abc''" ValueError]
  note b = discount_guard [of "JStr ''90''" "''120''" _ _ _ _ "JStr ''120''" Request_Failed
                 "JInt 8" "JStr ''A1''" "Finite 100"]
  note c = discount_guard [of "JStr ''90''" "''-1.00''" _ "- 1" 90]
  show ?thesis
    using 1 2 3 a b c by simp
qed

text \<open>
  Claim C3 as stated does not hold: the reference price \<open>-1.00\<close> is not a positive
  decimal, and with the current price \<open>-5.00\<close> the check reports a discount.
\<close>

theorem discount_for_negative_prices:
  "py_float (JStr ''-1.00'') = Inr (Finite (- 1))
   \<and> has_discount (JStr ''-5.00'') (JStr ''-1.00'') = Inr True"
  by (simp add: has_discount_def float_of_str_minus_1 float_of_str_minus_5 strip_chars_def
        isspace_def)

subsection \<open>The price step\<close>


lemma float_of_int_Finite: "float_of_int n = Inr t \<Longrightarrow> \<exists>y. t = Finite y \<and> fl_round (of_int n) = Finite y"
  by (cases "fl_round (of_int n)") (auto simp: float_of_int_def)

lemma tolerance_nonneg: "float_le (Finite 0) tolerance"
  by (simp add: tolerance_eq)

text \<open>
  Claim C4.  When the price step decides to update the current price \<open>x\<close> to
  \<open>new_price\<close>, the same step with the same POS price and a current price that
  \<open>float\<close> reads as \<open>new_price\<close> (what the storefront holds after the update) decides
  to skip.
\<close>

theorem price_update_idempotent:
  assumes "price_decision pos_price x = Inr (Update c new_price)"
    and "py_float y = float_of_int new_price"
  shows "\<exists>c'. price_decision pos_price y = Inr (Skip c')"
proof -
  from assms(1) obtain target where tgt: "target_price_of pos_price = Inr target"
    by (auto simp: price_decision_def bind_err_def split: sum.splits)
  from assms(1) tgt obtain skip where
    cur: "py_float x = Inr c" and at: "at_or_above_target c target = Inr skip"
    and upd: "(if skip then Skip c else Update c target) = Update c new_price"
    by (auto simp: price_decision_def bind_err_def split: sum.splits if_splits)
  from upd have new: "new_price = target" by (auto split: if_splits)
  from at obtain t where conv: "float_of_int target = Inr t"
    by (auto simp: at_or_above_target_def bind_err_def split: sum.splits)
  from float_of_int_Finite [OF conv] obtain r where t: "t = Finite r" by blast
  have "at_or_above_target (Finite r) target = Inr True"
    using tolerance_nonneg by (simp add: at_or_above_target_def bind_err_def conv t)
  moreover have "py_float y = Inr (Finite r)"
    using assms(2) conv t new by simp
  ultimately have "price_decision pos_price y = Inr (Skip (Finite r))"
    by (simp add: price_decision_def bind_err_def tgt)
  then show ?thesis by blast
qed

theorem price_update_idempotent_witness:
  "price_decision (Finite 100) (JStr ''100.00'') = Inr (Update (Finite 100) 115)
   \<and> py_float (JStr ''115.00'') = float_of_int 115
   \<and> price_decision (Finite 100) (JStr ''115.00'') = Inr (Skip (Finite 115))"
proof -
  have conv: "py_float (JStr ''115.00'') = float_of_int 115"
    by (simp add: float_of_str_115_00 float_of_int_115)
  show ?thesis
    using conv price_decision_100_115
      price_update_idempotent [OF price_decision_100_100 conv]
    by (simp add: price_decision_100_100)
qed

lemma float_of_str_is_float:
  assumes "float_of_str s = Some (Finite c)"
  shows "fl_round c = Finite c"
proof -
  from assms obtain q where "fl_round q = Finite c"
    by (auto simp: float_of_str_def parse_inf_nan_def Let_def
             split: if_splits option.splits prod.splits)
  then show ?thesis by (rule fl_round_idem)
qed

lemma update_raises_price:
  assumes fl: "fl_round x = Finite x"
    and at: "at_or_above_target (Finite x) target = Inr False"
  shows "x < of_int target"
proof -
  from at obtain t where conv: "float_of_int target = Inr t"
    by (auto simp: at_or_above_target_def bind_err_def split: sum.splits)
  from float_of_int_Finite [OF conv] obtain y where
    t: "t = Finite y" and y: "fl_round (of_int target) = Finite y" by blast
  from at have far: "\<not> float_le (float_abs (fl_round (x - y))) tolerance"
    and le: "\<not> of_int target < x"
    by (simp_all add: at_or_above_target_def bind_err_def conv t)
  show ?thesis
  proof (rule ccontr)
    assume "\<not> x < of_int target"
    with le have eq: "x = of_int target" by simp
    with fl y have "y = x" by simp
    with far tolerance_nonneg show False by simp
  qed
qed

text \<open>
  Claim C2, as amended.  Let the current price be a text that \<open>float\<close> reads as the
  finite float \<open>c\<close>, and let the target be computed: \<open>target =
  round_to_5_or_10(round(pos_price * 1.15, 2))\<close> in float arithmetic, convertible to
  the float \<open>t\<close>.  Then the price step skips exactly when the float
  \<open>abs(c - t)\<close> is at most the float \<open>0.01\<close> or \<open>c\<close> is greater than the target, and
  updates to the target otherwise.  Whenever it updates, the target is greater than
  the current price, and every price request of \<open>update_shopify_price\<close> carries
  that greater target.
\<close>

theorem price_target_calculator:
  assumes parse: "float_of_str s = Some (Finite c)"
    and rnd: "py_round2 (float_mul pos_price markup) = Inr rounded"
    and tgt: "round_to_5_or_10 rounded = Inr target"
    and conv: "float_of_int target = Inr t"
  shows "price_decision pos_price (JStr s)
           = Inr (if float_le (float_abs (float_sub (Finite c) t)) tolerance \<or> of_int target < c
                  then Skip (Finite c) else Update (Finite c) target)
       \<and> (price_decision pos_price (JStr s) = Inr (Update (Finite c) target)
            \<longrightarrow> c < of_int target)
       \<and> (\<forall>p. Put_Price variant_id p
                 \<in> set (fst (update_shopify_price resp variant_id sku pos_price (JStr s) compare))
              \<longrightarrow> p = str_of_int target \<and> c < of_int target)"
proof -
  have target: "target_price_of pos_price = Inr target"
    by (simp add: target_price_of_def bind_err_def rnd tgt)
  have at: "at_or_above_target (Finite c) target
      = Inr (float_le (float_abs (float_sub (Finite c) t)) tolerance \<or> of_int target < c)"
    by (simp add: at_or_above_target_def bind_err_def conv)
  have dec: "price_decision pos_price (JStr s)
           = Inr (if float_le (float_abs (float_sub (Finite c) t)) tolerance \<or> of_int target < c
                  then Skip (Finite c) else Update (Finite c) target)"
    by (simp add: price_decision_def bind_err_def target parse at)
  have raise: "c < of_int target"
    if "price_decision pos_price (JStr s) = Inr (Update (Finite c) target)"
  proof -
    from that dec have "at_or_above_target (Finite c) target = Inr False"
      by (auto simp: at split: if_splits)
    with float_of_str_is_float [OF parse] show ?thesis by (rule update_raises_price)
  qed
  have put: "p = str_of_int target \<and> c < of_int target"
    if "Put_Price variant_id p
          \<in> set (fst (update_shopify_price resp variant_id sku pos_price (JStr s) compare))" for p
  proof -
    from that dec have "price_decision pos_price (JStr s) = Inr (Update (Finite c) target)
        \<and> p = str_of_int target"
      by (auto simp: update_shopify_price_def
               split: sum.splits bool.splits if_splits http_resp.splits)
    with raise show ?thesis by simp
  qed
  from dec raise put show ?thesis by blast
qed

theorem price_target_calculator_witness:
  "float_of_str ''100.00'' = Some (Finite 100)
   \<and> py_round2 (float_mul (Finite 100) markup) = Inr (Finite 115)
   \<and> round_to_5_or_10 (Finite 115) = Inr 115
   \<and> float_of_int 115 = Inr (Finite 115)
   \<and> price_decision (Finite 100) (JStr ''100.00'') = Inr (Update (Finite 100) 115)
   \<and> (100 :: rat) < of_int 115"
proof -
  have rnd: "py_round2 (float_mul (Finite 100) markup) = Inr (Finite 115)"
    by (simp add: markup_eq fl_round_100_markup round_half_even_11500 fl_round_115)
  have tgt: "round_to_5_or_10 (Finite 115) = Inr 115"
    by (simp add: round_to_5_or_10_def py_trunc_def)
  show ?thesis
    using rnd tgt float_of_str_100_00 float_of_int_115 price_decision_100_100
      price_target_calculator [OF float_of_str_100_00 rnd tgt float_of_int_115]
    by simp
qed

text \<open>
  Claim C2 as stated, in decimal arithmetic, does not hold.  For the POS price 100 the
  target is 115; the current price 114.99 differs from it by exactly 0.01, yet the
  price step updates, because the float nearest to 114.99 is farther than the float
  \<open>0.01\<close> from 115.  For the POS price 31.30 the decimal product with 1.15 is 35.995,
  which rounds to 36.00 and on to 40, while the float product rounds to 35.99 and the
  target is 35.
\<close>

theorem tolerance_boundary_updates:
  "parse_decimal ''114.99'' = Some (11499 / 100)
   \<and> target_price_of (Finite 100) = Inr 115
   \<and> \<bar>11499 / 100 - of_int 115\<bar> \<le> (1 / 100 :: rat)
   \<and> price_decision (Finite 100) (JStr ''114.99'')
       = Inr (Update (Finite (8091701892989583 / 70368744177664)) 115)
   \<and> parse_decimal ''31.30'' = Some (313 / 10)
   \<and> round_half_even (313 / 10 * (115 / 100) * 100) = 3600
   \<and> round_to_5_or_10 (Finite (of_int 3600 / 100)) = Inr 40
   \<and> bind_err (py_float (JStr ''31.30'')) target_price_of = Inr 35"
proof -
  have "\<lfloor>7199 / 2 :: rat\<rfloor> = 3599"
    by (simp add: floor_eq_iff)
  then have "round_half_even (313 / 10 * (115 / 100) * 100) = 3600"
    by (simp add: round_half_even_def Let_def)
  then show ?thesis
    by (simp add: parse_decimal_def take_sign_def is_digit_def take_exponent_def digit_val_def
          pow10_def target_price_of_100 price_decision_100_114_99 round_to_5_or_10_def
          py_trunc_def float_of_str_31_30 bind_err_def target_price_of_31_30)
qed


end
